theory Spec2Isabelle
  imports Complex_Main
begin

section \<open>Shared values: JSON, truthiness, string helpers\<close>

text \<open>
  JSON values as the converters pass them around.  The built-ins \<open>JSON.parse\<close> and
  \<open>JSON.stringify\<close> belong to the language runtime, not to the repository: every function
  that calls them takes them as the parameters \<open>parse\<close> (\<open>None\<close> when it throws) and
  \<open>stringify\<close>.
\<close>

datatype json =
    JNull
  | JBool bool
  | JNum int
  | JStr string
  | JArr "json list"
  | JObj "(string \<times> json) list"

text \<open>JavaScript truthiness of a JSON value (objects and arrays are always truthy).\<close>

fun truthy :: "json \<Rightarrow> bool" where
  "truthy JNull = False"
| "truthy (JBool b) = b"
| "truthy (JNum n) = (n \<noteq> 0)"
| "truthy (JStr s) = (s \<noteq> [])"
| "truthy (JArr xs) = True"
| "truthy (JObj kvs) = True"

text \<open>Truthiness of an optional string: present and non-empty.\<close>

fun truthy_str :: "string option \<Rightarrow> bool" where
  "truthy_str None = False"
| "truthy_str (Some s) = (s \<noteq> [])"

text \<open>\<open>Array.prototype.join\<close> on strings.\<close>

fun join :: "string \<Rightarrow> string list \<Rightarrow> string" where
  "join sep [] = []"
| "join sep [x] = x"
| "join sep (x # y # ys) = x @ sep @ join sep (y # ys)"

text \<open>\<open>String.prototype.includes\<close>: the needle occurs at some offset.\<close>

fun str_includes :: "string \<Rightarrow> string \<Rightarrow> bool" where
  "str_includes [] sub = (sub = [])"
| "str_includes (c # cs) sub = (take (length sub) (c # cs) = sub \<or> str_includes cs sub)"

section \<open>Request conversion (RequestConverter)\<close>

datatype source =
    Base64Source string string
  | UrlSource string
  | OtherSource

datatype tool_result_content = TRString string | TRJson json

datatype content_block =
    TextBlock string
  | ImageBlock "source option"
  | DocumentBlock "source option"
  | ThinkingBlock string
  | ToolUseBlock string string json
  | ToolResultBlock string tool_result_content
  | OtherBlock string

datatype message_content = ContentString string | ContentBlocks "content_block list"

datatype claude_role = User | Assistant

record claude_message =
  msg_role :: claude_role
  msg_content :: message_content

datatype system_item = SysItemString string | SysItemBlock string "string option"

datatype system_prompt =
    SysString string
  | SysArray "system_item list"
  | SysObject "string option"

record claude_tool =
  tool_type :: "string option"
  tool_name :: string
  tool_description :: "string option"
  tool_input_schema :: "json option"

record claude_request =
  req_model :: string
  req_messages :: "claude_message list"
  req_system :: "system_prompt option"
  req_max_tokens :: real
  req_temperature :: "real option"
  req_top_p :: "real option"
  req_stop_sequences :: "string list option"
  req_tools :: "claude_tool list option"
  req_stream :: "bool option"
  req_thinking :: "json option"

record ModelConfig =
  claudeModelName :: string
  openaiModelName :: string
  maxTokens :: real

datatype oa_role = RoleSystem | RoleUser | RoleAssistant | RoleTool

datatype oa_part = TextPart string | ImageUrlPart string string

datatype oa_content =
    OString string
  | OParts "oa_part list"
  | OSystem system_prompt

record oa_tool_call =
  call_id :: string
  call_name :: string
  call_arguments :: string

record oa_message =
  oa_role :: oa_role
  oa_content :: oa_content
  oa_tool_calls :: "oa_tool_call list option"
  oa_tool_call_id :: "string option"

record oa_tool =
  fn_name :: string
  fn_description :: string
  fn_parameters :: json

datatype tool_choice = ChoiceAuto

record oa_request =
  oa_model :: string
  oa_messages :: "oa_message list"
  oa_max_tokens :: real
  oa_stream :: bool
  oa_temperature :: "real option"
  oa_top_p :: "real option"
  oa_stop :: "string list option"
  oa_tools :: "oa_tool list option"
  oa_tool_choice :: "tool_choice option"

fun is_tool_use :: "content_block \<Rightarrow> bool" where
  "is_tool_use (ToolUseBlock i n inp) = True"
| "is_tool_use b = False"

fun is_tool_result :: "content_block \<Rightarrow> bool" where
  "is_tool_result (ToolResultBlock i c) = True"
| "is_tool_result b = False"

fun is_text :: "content_block \<Rightarrow> bool" where
  "is_text (TextBlock t) = True"
| "is_text b = False"

fun block_text :: "content_block \<Rightarrow> string" where
  "block_text (TextBlock t) = t"
| "block_text b = []"

text \<open>One content block of a regular message, as the \<open>forEach\<close> body of \<open>convertContent\<close>
  pushes it (no part for an image without usable URL, a document without source, or
  any other block type).\<close>

fun convertBlock :: "content_block \<Rightarrow> oa_part list" where
  "convertBlock (TextBlock t) = [TextPart t]"
| "convertBlock (ImageBlock src) =
     (let imageUrl =
        (case src of
           Some (Base64Source media dat) \<Rightarrow> ''data:'' @ media @ '';base64,'' @ dat
         | Some (UrlSource u) \<Rightarrow> u
         | Some OtherSource \<Rightarrow> []
         | None \<Rightarrow> [])
      in if imageUrl \<noteq> [] then [ImageUrlPart imageUrl ''auto''] else [])"
| "convertBlock (DocumentBlock src) =
     (case src of
        Some (Base64Source media dat) \<Rightarrow> [TextPart (''[Document: '' @ media @ '']'')]
      | Some other \<Rightarrow> [TextPart ''[Document content]'']
      | None \<Rightarrow> [])"
| "convertBlock (ThinkingBlock t) = [TextPart (''[Thinking: '' @ t @ '']'')]"
| "convertBlock b = []"

definition convertContent :: "message_content \<Rightarrow> oa_content" where
  "convertContent c =
     (case c of
        ContentString s \<Rightarrow> OString s
      | ContentBlocks bs \<Rightarrow> OParts (concat (map convertBlock bs)))"

fun toolCallOf :: "(json \<Rightarrow> string) \<Rightarrow> content_block \<Rightarrow> oa_tool_call list" where
  "toolCallOf stringify (ToolUseBlock i n inp) =
     [\<lparr>call_id = i, call_name = n, call_arguments = stringify inp\<rparr>]"
| "toolCallOf stringify b = []"

text \<open>The \<open>tool_result\<close> blocks of a content array, as (tool_use_id, content) pairs.\<close>

fun toolResultOf :: "content_block \<Rightarrow> (string \<times> tool_result_content) list" where
  "toolResultOf (ToolResultBlock i c) = [(i, c)]"
| "toolResultOf b = []"

definition toolResultMessage ::
  "(json \<Rightarrow> string) \<Rightarrow> string \<times> tool_result_content \<Rightarrow> oa_message" where
  "toolResultMessage stringify toolResult =
     \<lparr>oa_role = RoleTool,
      oa_content =
        OString (case snd toolResult of TRString s \<Rightarrow> s | TRJson j \<Rightarrow> stringify j),
      oa_tool_calls = None,
      oa_tool_call_id = Some (fst toolResult)\<rparr>"

definition plainRole :: "claude_role \<Rightarrow> oa_role" where
  "plainRole r = (if r = User then RoleUser else RoleAssistant)"

definition convertMessage :: "(json \<Rightarrow> string) \<Rightarrow> claude_message \<Rightarrow> oa_message" where
  "convertMessage stringify m =
     (case msg_content m of
        ContentString s \<Rightarrow>
          \<lparr>oa_role = plainRole (msg_role m), oa_content = OString s,
           oa_tool_calls = None, oa_tool_call_id = None\<rparr>
      | ContentBlocks bs \<Rightarrow>
          (let toolUseBlocks = filter is_tool_use bs;
               toolResultBlocks = concat (map toolResultOf bs)
           in if length toolUseBlocks > 0 then
                (let textBlocks = filter is_text bs;
                     content = (if length textBlocks > 0
                                then join [CHR 0x0A] (map block_text textBlocks) else [])
                 in \<lparr>oa_role = RoleAssistant, oa_content = OString content,
                     oa_tool_calls = Some (concat (map (toolCallOf stringify) toolUseBlocks)),
                     oa_tool_call_id = None\<rparr>)
              else (case toolResultBlocks of
                      toolResult # others \<Rightarrow> toolResultMessage stringify toolResult
                    | [] \<Rightarrow>
                        \<lparr>oa_role = plainRole (msg_role m),
                         oa_content = convertContent (ContentBlocks bs),
                         oa_tool_calls = None, oa_tool_call_id = None\<rparr>)))"

definition defaultParameters :: json where
  "defaultParameters = JObj [(''type'', JStr ''object''), (''properties'', JObj [])]"

definition convertTool :: "claude_tool \<Rightarrow> oa_tool" where
  "convertTool t =
     \<lparr>fn_name = tool_name t,
      fn_description = (case tool_description t of Some d \<Rightarrow> d | None \<Rightarrow> []),
      fn_parameters =
        (case tool_input_schema t of
           Some s \<Rightarrow> (if truthy s then s else defaultParameters)
         | None \<Rightarrow> defaultParameters)\<rparr>"

definition systemTruthy :: "system_prompt option \<Rightarrow> bool" where
  "systemTruthy s = (case s of None \<Rightarrow> False | Some (SysString t) \<Rightarrow> t \<noteq> [] | Some other \<Rightarrow> True)"

definition absoluteMaxTokens :: real where
  "absoluteMaxTokens = 8192"

text \<open>\<open>Math.min\<close> of three numbers.\<close>

definition min3 :: "real \<Rightarrow> real \<Rightarrow> real \<Rightarrow> real" where
  "min3 a b c = min a (min b c)"

definition convertClaudeToOpenAI ::
  "(json \<Rightarrow> string) \<Rightarrow> claude_request \<Rightarrow> ModelConfig \<Rightarrow> oa_request" where
  "convertClaudeToOpenAI stringify claudeRequest modelConfig =
     (let systemMessages =
            (case req_system claudeRequest of
               Some s \<Rightarrow>
                 (if systemTruthy (Some s)
                  then [\<lparr>oa_role = RoleSystem, oa_content = OSystem s,
                         oa_tool_calls = None, oa_tool_call_id = None\<rparr>]
                  else [])
             | None \<Rightarrow> []);
          openAIMessages =
            systemMessages @ map (convertMessage stringify) (req_messages claudeRequest);
          finalMaxTokens =
            min3 (req_max_tokens claudeRequest) (maxTokens modelConfig) absoluteMaxTokens;
          validTools =
            (case req_tools claudeRequest of
               Some ts \<Rightarrow>
                 (if length ts > 0
                  then map convertTool (filter (\<lambda>t. tool_input_schema t \<noteq> None) ts)
                  else [])
             | None \<Rightarrow> [])
      in \<lparr>oa_model = openaiModelName modelConfig,
          oa_messages = openAIMessages,
          oa_max_tokens = finalMaxTokens,
          oa_stream = (case req_stream claudeRequest of Some b \<Rightarrow> b | None \<Rightarrow> False),
          oa_temperature = req_temperature claudeRequest,
          oa_top_p = req_top_p claudeRequest,
          oa_stop =
            (case req_stop_sequences claudeRequest of
               Some ss \<Rightarrow> (if length ss > 0 then Some ss else None)
             | None \<Rightarrow> None),
          oa_tools = (if length validTools > 0 then Some validTools else None),
          oa_tool_choice = (if length validTools > 0 then Some ChoiceAuto else None)\<rparr>)"

section \<open>Stream reconstruction (ResponseConverter.convertOpenAIStreamToClaude)\<close>

text \<open>Backend chunks, with every optional field of the wire format as an option.\<close>

record function_delta =
  fd_name :: "string option"
  fd_arguments :: "string option"

record tool_call_delta =
  tcd_index :: "nat option"
  tcd_id :: "string option"
  tcd_function :: "function_delta option"

record chunk_delta =
  delta_content :: "string option"
  delta_tool_calls :: "tool_call_delta list option"

record stream_choice =
  choice_delta :: "chunk_delta option"
  choice_finish_reason :: "string option"

record usage_in =
  prompt_tokens :: "int option"
  completion_tokens :: "int option"

record chunk =
  chunk_choices :: "stream_choice list"
  chunk_usage :: "usage_in option"

text \<open>Protocol-A events.  Each \<open>yield\<close> of the generator is one event; the model keeps the
  event object and leaves out its serialisation to an SSE frame.\<close>

datatype block_out = OutText string | OutToolUse string string json

datatype delta_out = TextDelta string | InputJsonDelta string

datatype event =
    MessageStart string string
  | ContentBlockStart nat block_out
  | ContentBlockDelta nat delta_out
  | ContentBlockStop nat
  | MessageDelta string int int
  | MessageStop

record buffer_entry =
  buf_id :: string
  buf_name :: string
  buf_arguments :: string

text \<open>
  The generator's local variables.  \<open>toolCallsBuffer\<close> is an object keyed by
  \<open>tool_<index>\<close>; its values are read back in insertion order, so it is an association list
  keyed by the index.  \<open>activeContentBlocks\<close> is a \<open>Set\<close> iterated in insertion order.
\<close>

record stream_state =
  hasStarted :: bool
  totalInputTokens :: int
  totalOutputTokens :: int
  activeContentBlocks :: "nat list"
  toolCallsBuffer :: "(nat \<times> buffer_entry) list"
  hasFinished :: bool

definition initialState :: stream_state where
  "initialState =
     \<lparr>hasStarted = False, totalInputTokens = 0, totalOutputTokens = 0,
      activeContentBlocks = [], toolCallsBuffer = [], hasFinished = False\<rparr>"

text \<open>The fields of one tool-call fragment, applied to the entry of its key.\<close>

definition applyFragment :: "tool_call_delta \<Rightarrow> buffer_entry \<Rightarrow> buffer_entry" where
  "applyFragment d e =
     (let e1 = (case tcd_id d of
                  Some i \<Rightarrow> (if i \<noteq> [] \<and> buf_id e = [] then e\<lparr>buf_id := i\<rparr> else e)
                | None \<Rightarrow> e);
          fname = (case tcd_function d of Some f \<Rightarrow> fd_name f | None \<Rightarrow> None);
          fargs = (case tcd_function d of Some f \<Rightarrow> fd_arguments f | None \<Rightarrow> None);
          e2 = (case fname of
                  Some n \<Rightarrow> (if n \<noteq> [] then e1\<lparr>buf_name := n\<rparr> else e1)
                | None \<Rightarrow> e1)
      in (case fargs of
            Some a \<Rightarrow> (if a \<noteq> [] then e2\<lparr>buf_arguments := buf_arguments e2 @ a\<rparr> else e2)
          | None \<Rightarrow> e2))"

text \<open>
  The entry created for a key that is not in the buffer yet.  \<open>rnd\<close> supplies the random
  suffix of a generated call id; it is drawn once for each entry created.
\<close>

definition newEntry ::
  "(nat \<Rightarrow> string) \<Rightarrow> (nat \<times> buffer_entry) list \<Rightarrow> tool_call_delta \<Rightarrow> buffer_entry" where
  "newEntry rnd buf d =
     (let generated = ''call_'' @ rnd (length buf)
      in \<lparr>buf_id = (case tcd_id d of
                      Some i \<Rightarrow> (if i \<noteq> [] then i else generated)
                    | None \<Rightarrow> generated),
          buf_name = [], buf_arguments = []\<rparr>)"

text \<open>One iteration of the loop over \<open>choice.delta.tool_calls\<close>.\<close>

definition bufferFragment ::
  "(nat \<Rightarrow> string) \<Rightarrow> (nat \<times> buffer_entry) list \<Rightarrow> tool_call_delta \<Rightarrow>
   (nat \<times> buffer_entry) list" where
  "bufferFragment rnd buf d =
     (let toolCallKey = (case tcd_index d of Some i \<Rightarrow> i | None \<Rightarrow> 0);
          buf1 =
            (if map_of buf toolCallKey = None
             then buf @ [(toolCallKey, newEntry rnd buf d)]
             else buf)
      in map (\<lambda>(k, e). if k = toolCallKey then (k, applyFragment d e) else (k, e)) buf1)"

definition choiceOf :: "chunk \<Rightarrow> stream_choice option" where
  "choiceOf c = (case chunk_choices c of [] \<Rightarrow> None | ch # rest \<Rightarrow> Some ch)"

definition deltaOf :: "chunk \<Rightarrow> chunk_delta option" where
  "deltaOf c = (case choiceOf c of Some ch \<Rightarrow> choice_delta ch | None \<Rightarrow> None)"

text \<open>\<open>x || y\<close> on an optional token count: zero and absent both fall through to \<open>y\<close>.\<close>

definition orElse :: "int option \<Rightarrow> int \<Rightarrow> int" where
  "orElse x y = (case x of Some n \<Rightarrow> (if n \<noteq> 0 then n else y) | None \<Rightarrow> y)"

text \<open>The body of the loop over the collected chunks: the events it yields and the new
  state.\<close>

definition processChunk ::
  "(nat \<Rightarrow> string) \<Rightarrow> string \<Rightarrow> string \<Rightarrow> stream_state \<Rightarrow> chunk \<Rightarrow>
   event list \<times> stream_state" where
  "processChunk rnd messageId claudeModel st c =
     (let startEvents = (if \<not> hasStarted st then [MessageStart messageId claudeModel] else []);
          st1 = st\<lparr>hasStarted := True\<rparr>;
          content = (case deltaOf c of Some d \<Rightarrow> delta_content d | None \<Rightarrow> None);
          textEvents =
            (case content of
               Some t \<Rightarrow>
                 (if t \<noteq> [] then
                    (if 0 \<notin> set (activeContentBlocks st1)
                     then [ContentBlockStart 0 (OutText [])] else [])
                    @ [ContentBlockDelta 0 (TextDelta t)]
                  else [])
             | None \<Rightarrow> []);
          st2 =
            (if truthy_str content \<and> 0 \<notin> set (activeContentBlocks st1)
             then st1\<lparr>activeContentBlocks := activeContentBlocks st1 @ [0]\<rparr> else st1);
          st3 =
            (case (case deltaOf c of Some d \<Rightarrow> delta_tool_calls d | None \<Rightarrow> None) of
               Some tcs \<Rightarrow>
                 st2\<lparr>toolCallsBuffer := foldl (bufferFragment rnd) (toolCallsBuffer st2) tcs\<rparr>
             | None \<Rightarrow> st2);
          st4 =
            (case chunk_usage c of
               Some u \<Rightarrow>
                 st3\<lparr>totalInputTokens := orElse (prompt_tokens u) (totalInputTokens st3),
                     totalOutputTokens := orElse (completion_tokens u) (totalOutputTokens st3)\<rparr>
             | None \<Rightarrow> st3);
          finish = (case choiceOf c of Some ch \<Rightarrow> choice_finish_reason ch | None \<Rightarrow> None);
          st5 = (if truthy_str finish \<and> \<not> hasFinished st4
                 then st4\<lparr>hasFinished := True\<rparr> else st4)
      in (startEvents @ textEvents, st5))"

fun processChunks ::
  "(nat \<Rightarrow> string) \<Rightarrow> string \<Rightarrow> string \<Rightarrow> stream_state \<Rightarrow> chunk list \<Rightarrow>
   event list \<times> stream_state" where
  "processChunks rnd messageId claudeModel st [] = ([], st)"
| "processChunks rnd messageId claudeModel st (c # cs) =
     (let (evs1, st1) = processChunk rnd messageId claudeModel st c;
          (evs2, st2) = processChunks rnd messageId claudeModel st1 cs
      in (evs1 @ evs2, st2))"

text \<open>\<open>for (i = 0; i < s.length; i += n) s.slice(i, i + n)\<close>: the slices of a string, from
  offset \<open>i\<close> on (the source uses the positive steps 5 and 3).\<close>

function slices :: "nat \<Rightarrow> nat \<Rightarrow> string \<Rightarrow> string list" where
  "slices n i s = (if 0 < n \<and> i < length s then take n (drop i s) # slices n (i + n) s else [])"
  by pat_completeness auto
termination
  by (relation "measure (\<lambda>(n, i, s). length s - i)") auto

declare slices.simps [simp del]

text \<open>
  \<open>explanatoryTexts[name]\<close> reads a property of an object literal, so the lookup follows
  the prototype chain: besides the five sentences of the table it finds the members the
  literal inherits from \<open>Object.prototype\<close>.  Those are functions, known here by their
  \<open>length\<close> (the number of declared parameters), and, for \<open>__proto__\<close>, the prototype
  object itself, which has no \<open>length\<close>.  Every value found is truthy.
\<close>

datatype table_value = TableText string | InheritedFunction nat | InheritedObject

definition explanatoryTexts :: "string \<Rightarrow> table_value option" where
  "explanatoryTexts n =
     (if n = ''get_weather''
        then Some (TableText (''I'' @ [CHR 0x27] @ ''ll help you check the weather in that location.''))
      else if n = ''LS''
        then Some (TableText (''I'' @ [CHR 0x27] @ ''ll list the files in that directory for you.''))
      else if n = ''Read'' then Some (TableText (''I'' @ [CHR 0x27] @ ''ll read that file for you.''))
      else if n = ''Write'' then Some (TableText (''I'' @ [CHR 0x27] @ ''ll write to that file.''))
      else if n = ''Bash''
        then Some (TableText (''I'' @ [CHR 0x27] @ ''ll execute that command for you.''))
      else if n = ''constructor'' then Some (InheritedFunction 1)
      else if n = ''hasOwnProperty'' then Some (InheritedFunction 1)
      else if n = ''isPrototypeOf'' then Some (InheritedFunction 1)
      else if n = ''propertyIsEnumerable'' then Some (InheritedFunction 1)
      else if n = ''__lookupGetter__'' then Some (InheritedFunction 1)
      else if n = ''__lookupSetter__'' then Some (InheritedFunction 1)
      else if n = ''__defineGetter__'' then Some (InheritedFunction 2)
      else if n = ''__defineSetter__'' then Some (InheritedFunction 2)
      else if n = ''toString'' then Some (InheritedFunction 0)
      else if n = ''toLocaleString'' then Some (InheritedFunction 0)
      else if n = ''valueOf'' then Some (InheritedFunction 0)
      else if n = ''__proto__'' then Some InheritedObject
      else None)"

text \<open>Whitespace as \<open>\s\<close> and \<open>trim\<close> see it, on characters as code units below 256.\<close>

definition is_space :: "char \<Rightarrow> bool" where
  "is_space c = (c \<in> set [CHR 0x09, CHR 0x0A, CHR 0x0B, CHR 0x0C, CHR 0x0D, CHR 0x20, CHR 0xA0])"

text \<open>
  The regular expression \<open>/"location"\s*:\s*"([^"]*)/\<close>: \<open>matchLocationHere\<close> tries it at the
  start of a string and returns the captured group, \<open>locationMatch\<close> finds the leftmost
  match as \<open>String.prototype.match\<close> does.
\<close>

definition matchLocationHere :: "string \<Rightarrow> string option" where
  "matchLocationHere s =
     (if take 10 s = [CHR 0x22] @ ''location'' @ [CHR 0x22] then
        (case dropWhile is_space (drop 10 s) of
           [] \<Rightarrow> None
         | c # r \<Rightarrow>
             (if c = CHR '':'' then
                (case dropWhile is_space r of
                   [] \<Rightarrow> None
                 | q # r2 \<Rightarrow>
                     (if q = CHR 0x22 then Some (takeWhile (\<lambda>x. x \<noteq> CHR 0x22) r2) else None))
              else None))
      else None)"

fun locationMatch :: "string \<Rightarrow> string option" where
  "locationMatch [] = matchLocationHere []"
| "locationMatch (c # cs) =
     (case matchLocationHere (c # cs) of
        Some g \<Rightarrow> Some g
      | None \<Rightarrow> locationMatch cs)"

definition defaultLocation :: json where
  "defaultLocation = JObj [(''location'', JStr ''San Francisco, CA'')]"

text \<open>The \<open>input\<close> of a tool call: the parsed arguments, or the location fallback when
  \<open>JSON.parse\<close> throws.\<close>

definition toolInput :: "(string \<Rightarrow> json option) \<Rightarrow> string \<Rightarrow> json" where
  "toolInput parse arguments =
     (case parse (if arguments \<noteq> [] then arguments else ''{}'') of
        Some v \<Rightarrow> v
      | None \<Rightarrow>
          (case locationMatch arguments of
             Some loc \<Rightarrow>
               (if loc \<noteq> [] then
                  JObj [(''location'',
                         JStr (if loc = ''San'' then ''San Francisco, CA'' else loc))]
                else defaultLocation)
           | None \<Rightarrow> defaultLocation))"

definition toolCallEvents ::
  "(string \<Rightarrow> json option) \<Rightarrow> (json \<Rightarrow> string) \<Rightarrow> nat \<Rightarrow> buffer_entry \<Rightarrow> event list" where
  "toolCallEvents parse stringify nextBlockIndex toolCall =
     (let inputJson = stringify (toolInput parse (buf_arguments toolCall))
      in ContentBlockStart nextBlockIndex
           (OutToolUse (buf_id toolCall) (buf_name toolCall) (JObj []))
         # map (\<lambda>piece. ContentBlockDelta nextBlockIndex (InputJsonDelta piece))
             (slices 3 0 inputJson)
         @ [ContentBlockStop nextBlockIndex])"

text \<open>The loop over \<open>completedToolCalls\<close>: a call without a name is skipped and does not
  advance the block index.\<close>

fun emitToolCalls ::
  "(string \<Rightarrow> json option) \<Rightarrow> (json \<Rightarrow> string) \<Rightarrow> nat \<Rightarrow> buffer_entry list \<Rightarrow> event list"
  where
  "emitToolCalls parse stringify nextBlockIndex [] = []"
| "emitToolCalls parse stringify nextBlockIndex (toolCall # rest) =
     (if buf_name toolCall = [] then emitToolCalls parse stringify nextBlockIndex rest
      else toolCallEvents parse stringify nextBlockIndex toolCall
           @ emitToolCalls parse stringify (nextBlockIndex + 1) rest)"

definition fallbackText :: string where
  "fallbackText = ''I'' @ [CHR 0x27] @ ''ll help you with that.''"

text \<open>\<open>explanatoryTexts[firstToolName] || "I'll help you with that."\<close> for the first call
  that has a name.\<close>

definition explanatoryText :: "buffer_entry list \<Rightarrow> table_value" where
  "explanatoryText completedToolCalls =
     (let firstToolName =
            (case find (\<lambda>tc. buf_name tc \<noteq> []) completedToolCalls of
               Some tc \<Rightarrow> buf_name tc
             | None \<Rightarrow> [])
      in (case explanatoryTexts firstToolName of Some v \<Rightarrow> v | None \<Rightarrow> TableText fallbackText))"

text \<open>
  The loop \<open>for (i = 0; i < explanatoryText.length; i += 5)\<close> calls \<open>explanatoryText.slice\<close>
  in its first iteration.  On a string it yields the slices.  An inherited function has no
  \<open>slice\<close>: with a positive \<open>length\<close> the first iteration throws a \<open>TypeError\<close>, which
  ends the generator; with \<open>length\<close> 0, and for the prototype object, whose \<open>length\<close> is
  undefined, the loop body never runs.
\<close>

definition explanatoryThrows :: "buffer_entry list \<Rightarrow> bool" where
  "explanatoryThrows completedToolCalls =
     (case explanatoryText completedToolCalls of
        TableText t \<Rightarrow> False
      | InheritedFunction len \<Rightarrow> 0 < len
      | InheritedObject \<Rightarrow> False)"

text \<open>The names for which that happens: the functions of \<open>Object.prototype\<close> that declare
  parameters.\<close>

definition throwingNames :: "string list" where
  "throwingNames =
     [''constructor'', ''hasOwnProperty'', ''isPrototypeOf'', ''propertyIsEnumerable'',
      ''__lookupGetter__'', ''__lookupSetter__'', ''__defineGetter__'', ''__defineSetter__'']"

text \<open>The events the explanatory block yields: all of them, or those before the throw.\<close>

definition explanatoryEvents :: "nat \<Rightarrow> buffer_entry list \<Rightarrow> event list" where
  "explanatoryEvents nextBlockIndex completedToolCalls =
     ContentBlockStart nextBlockIndex (OutText [])
     # (case explanatoryText completedToolCalls of
          TableText t \<Rightarrow>
            map (\<lambda>piece. ContentBlockDelta nextBlockIndex (TextDelta piece)) (slices 5 0 t)
            @ [ContentBlockStop nextBlockIndex]
        | InheritedFunction len \<Rightarrow> (if 0 < len then [] else [ContentBlockStop nextBlockIndex])
        | InheritedObject \<Rightarrow> [ContentBlockStop nextBlockIndex])"

text \<open>Whether the code inside \<open>if (hasFinished)\<close> ends by throwing.\<close>

definition finalizeThrows :: "stream_state \<Rightarrow> bool" where
  "finalizeThrows st =
     (let completedToolCalls = map snd (toolCallsBuffer st)
      in length completedToolCalls > 0
         \<and> list_ex (\<lambda>tc. buf_name tc \<noteq> []) completedToolCalls
         \<and> explanatoryThrows completedToolCalls)"

text \<open>Everything yielded inside \<open>if (hasFinished)\<close>; nothing more is yielded once the
  explanatory block has thrown.\<close>

definition finalize ::
  "(string \<Rightarrow> json option) \<Rightarrow> (json \<Rightarrow> string) \<Rightarrow> stream_state \<Rightarrow> event list" where
  "finalize parse stringify st =
     (let stops = map ContentBlockStop (activeContentBlocks st);
          completedToolCalls = map snd (toolCallsBuffer st);
          nextBlockIndex =
            (if length (activeContentBlocks st) > 0
             then Max (set (activeContentBlocks st)) + 1 else 0);
          hasNamed =
            (length completedToolCalls > 0
             \<and> list_ex (\<lambda>tc. buf_name tc \<noteq> []) completedToolCalls);
          explanatory =
            (if hasNamed then explanatoryEvents nextBlockIndex completedToolCalls else []);
          nextBlockIndex2 = (if hasNamed then nextBlockIndex + 1 else nextBlockIndex)
      in stops @ explanatory
         @ (if finalizeThrows st then []
            else emitToolCalls parse stringify nextBlockIndex2 completedToolCalls
                 @ [MessageDelta ''tool_use'' (totalOutputTokens st) (totalInputTokens st),
                    MessageStop]))"

text \<open>
  The generator as a whole.  \<open>convertOpenAIStreamToClaude\<close> is the sequence of events it
  yields: those of the chunk loop, then those of the finalisation if a finish signal was
  seen.  \<open>generatorThrows\<close> tells whether the generator ends by throwing after the last of
  them instead of returning.  \<open>messageId\<close> is the generated message id.
\<close>

definition convertOpenAIStreamToClaude ::
  "(nat \<Rightarrow> string) \<Rightarrow> (string \<Rightarrow> json option) \<Rightarrow> (json \<Rightarrow> string) \<Rightarrow> string \<Rightarrow> string \<Rightarrow>
   chunk list \<Rightarrow> event list" where
  "convertOpenAIStreamToClaude rnd parse stringify messageId claudeModel allChunks =
     (let (evs, st) = processChunks rnd messageId claudeModel initialState allChunks
      in evs @ (if hasFinished st then finalize parse stringify st else []))"

definition generatorThrows :: "(nat \<Rightarrow> string) \<Rightarrow> string \<Rightarrow> string \<Rightarrow> chunk list \<Rightarrow> bool" where
  "generatorThrows rnd messageId claudeModel allChunks =
     (let (evs, st) = processChunks rnd messageId claudeModel initialState allChunks
      in hasFinished st \<and> finalizeThrows st)"

text \<open>A chunk carries a finish signal when its first choice has a non-empty
  \<open>finish_reason\<close>.\<close>

definition finishSignal :: "chunk \<Rightarrow> bool" where
  "finishSignal c =
     (case choiceOf c of Some ch \<Rightarrow> truthy_str (choice_finish_reason ch) | None \<Rightarrow> False)"

subsection \<open>The event grammar of protocol A\<close>

text \<open>
  The required ordering as an automaton over the emitted events: one \<open>message_start\<close>;
  then content blocks, each a start, any number of deltas and a stop, all with the block's
  index, the indices strictly increasing from block to block; then one \<open>message_delta\<close>;
  then one \<open>message_stop\<close>, and nothing after it.  \<open>Between prev\<close> is the state between
  blocks, \<open>prev\<close> the index of the block closed most recently.
\<close>

datatype phase = Init | Between "nat option" | InBlock nat | AfterDelta | Done | Bad

fun orderStep :: "phase \<Rightarrow> event \<Rightarrow> phase" where
  "orderStep Init (MessageStart i m) = Between None"
| "orderStep (Between prev) (ContentBlockStart i b) =
     (case prev of
        None \<Rightarrow> InBlock i
      | Some j \<Rightarrow> (if j < i then InBlock i else Bad))"
| "orderStep (InBlock i) (ContentBlockDelta j d) = (if i = j then InBlock i else Bad)"
| "orderStep (InBlock i) (ContentBlockStop j) = (if i = j then Between (Some i) else Bad)"
| "orderStep (Between prev) (MessageDelta r out inp) = AfterDelta"
| "orderStep AfterDelta MessageStop = Done"
| "orderStep p e = Bad"

definition wellOrdered :: "event list \<Rightarrow> bool" where
  "wellOrdered evs = (foldl orderStep Init evs = Done)"

fun isMessageDelta :: "event \<Rightarrow> bool" where
  "isMessageDelta (MessageDelta r out inp) = True"
| "isMessageDelta e = False"

subsection \<open>Reading the fragments of a stream\<close>

text \<open>The tool-call fragments a chunk carries, and the parts of one fragment (an absent
  string reads as the empty string).\<close>

definition fragmentsOf :: "chunk \<Rightarrow> tool_call_delta list" where
  "fragmentsOf c =
     (case deltaOf c of
        Some d \<Rightarrow> (case delta_tool_calls d of Some tcs \<Rightarrow> tcs | None \<Rightarrow> [])
      | None \<Rightarrow> [])"

definition fragKey :: "tool_call_delta \<Rightarrow> nat" where
  "fragKey d = (case tcd_index d of Some i \<Rightarrow> i | None \<Rightarrow> 0)"

definition fragId :: "tool_call_delta \<Rightarrow> string" where
  "fragId d = (case tcd_id d of Some i \<Rightarrow> i | None \<Rightarrow> [])"

definition fragName :: "tool_call_delta \<Rightarrow> string" where
  "fragName d =
     (case tcd_function d of
        Some f \<Rightarrow> (case fd_name f of Some n \<Rightarrow> n | None \<Rightarrow> [])
      | None \<Rightarrow> [])"

definition fragArgs :: "tool_call_delta \<Rightarrow> string" where
  "fragArgs d =
     (case tcd_function d of
        Some f \<Rightarrow> (case fd_arguments f of Some a \<Rightarrow> a | None \<Rightarrow> [])
      | None \<Rightarrow> [])"

text \<open>All fragments of a chunk sequence for call index \<open>k\<close>, in arrival order.\<close>

definition fragmentsAt :: "nat \<Rightarrow> chunk list \<Rightarrow> tool_call_delta list" where
  "fragmentsAt k chunks = filter (\<lambda>d. fragKey d = k) (concat (map fragmentsOf chunks))"

text \<open>The first and the last non-empty string of a list (empty when there is none).
  \<open>firstNonEmpty\<close> is what the specification says of names and ids.\<close>

definition firstNonEmpty :: "string list \<Rightarrow> string" where
  "firstNonEmpty xs = (case filter (\<lambda>x. x \<noteq> []) xs of [] \<Rightarrow> [] | x # rest \<Rightarrow> x)"

definition lastNonEmpty :: "string list \<Rightarrow> string" where
  "lastNonEmpty xs = last ([] # filter (\<lambda>x. x \<noteq> []) xs)"

text \<open>One buffer entry taken through a list of fragments.\<close>

definition accumulate :: "buffer_entry \<Rightarrow> tool_call_delta list \<Rightarrow> buffer_entry" where
  "accumulate e ds = foldl (\<lambda>e d. applyFragment d e) e ds"

subsection \<open>Proof invariants of the chunk loop\<close>

text \<open>Only block 0 is ever opened by the loop, and only after \<open>message_start\<close>;
  \<open>phaseOf\<close> is the state of the grammar that corresponds to the generator's state.\<close>

definition loopInv :: "stream_state \<Rightarrow> bool" where
  "loopInv st =
     ((activeContentBlocks st = [] \<or> activeContentBlocks st = [0])
      \<and> (activeContentBlocks st = [0] \<longrightarrow> hasStarted st))"

definition phaseOf :: "stream_state \<Rightarrow> phase" where
  "phaseOf st =
     (if \<not> hasStarted st then Init
      else if activeContentBlocks st = [] then Between None
      else InBlock 0)"

fun prevBelow :: "nat option \<Rightarrow> nat \<Rightarrow> bool" where
  "prevBelow None n = True"
| "prevBelow (Some j) n = (j < n)"

subsection \<open>Sample streams\<close>

definition textChunk :: "string \<Rightarrow> chunk" where
  "textChunk t =
     \<lparr>chunk_choices =
        [\<lparr>choice_delta = Some \<lparr>delta_content = Some t, delta_tool_calls = None\<rparr>,
          choice_finish_reason = None\<rparr>],
      chunk_usage = None\<rparr>"

definition finishChunk :: "string \<Rightarrow> chunk" where
  "finishChunk r =
     \<lparr>chunk_choices =
        [\<lparr>choice_delta = Some \<lparr>delta_content = None, delta_tool_calls = None\<rparr>,
          choice_finish_reason = Some r\<rparr>],
      chunk_usage = None\<rparr>"

text \<open>A chunk with one tool-call fragment at call index 0 and without id.\<close>

definition fragmentChunk :: "string option \<Rightarrow> string option \<Rightarrow> chunk" where
  "fragmentChunk n a =
     \<lparr>chunk_choices =
        [\<lparr>choice_delta =
            Some \<lparr>delta_content = None,
                  delta_tool_calls =
                    Some [\<lparr>tcd_index = Some 0, tcd_id = None,
                           tcd_function = Some \<lparr>fd_name = n, fd_arguments = a\<rparr>\<rparr>]\<rparr>,
          choice_finish_reason = None\<rparr>],
      chunk_usage = None\<rparr>"

text \<open>The three fragments \<open>{name:"get_weather"}\<close>, \<open>{arguments:'{"loc'}\<close>,
  \<open>{arguments:'":"NYC"}'}\<close>, followed by the backend's finish chunk.\<close>

definition weatherChunks :: "chunk list" where
  "weatherChunks =
     [fragmentChunk (Some ''get_weather'') None,
      fragmentChunk None (Some ''{\"loc''),
      fragmentChunk None (Some ''\":\"NYC\"}''),
      finishChunk ''tool_calls'']"

text \<open>A finished stream whose only tool call is named \<open>constructor\<close>.\<close>

definition constructorChunks :: "chunk list" where
  "constructorChunks = [fragmentChunk (Some ''constructor'') None, finishChunk ''tool_calls'']"

text \<open>Two fragments at call index 0 that both carry a name.\<close>

definition renamedChunks :: "chunk list" where
  "renamedChunks = [fragmentChunk (Some ''a'') None, fragmentChunk (Some ''b'') None]"

text \<open>A sample runtime for closed instances: a fixed random suffix, and \<open>JSON.parse\<close> and
  \<open>JSON.stringify\<close> on the few texts and values the instances use.\<close>

definition sampleRnd :: "nat \<Rightarrow> string" where
  "sampleRnd n = ''k3x9''"

definition sampleParse :: "string \<Rightarrow> json option" where
  "sampleParse s =
     (if s = ''{\"loc\":\"NYC\"}'' then Some (JObj [(''loc'', JStr ''NYC'')])
      else if s = ''[{\"title\":\"a\",\"url\":\"b\"}]''
        then Some (JArr [JObj [(''title'', JStr ''a''), (''url'', JStr ''b'')]])
      else if s = ''{}'' then Some (JObj [])
      else None)"

definition sampleStringify :: "json \<Rightarrow> string" where
  "sampleStringify j =
     (if j = JObj [(''loc'', JStr ''NYC'')] then ''{\"loc\":\"NYC\"}''
      else if j = JObj [] then ''{}''
      else ''null'')"

section \<open>Batch engine (routes/batches.ts)\<close>

datatype processing_status = Validating | InProgress | Canceling | Ended

record request_counts =
  processing :: int
  succeeded :: int
  errored :: int
  canceled :: int

record batch_request =
  br_custom_id :: string
  br_body :: claude_request

datatype batch_outcome =
    ResultSucceeded json
  | ResultErrored string
  | ResultCanceled

record batch_result =
  res_custom_id :: string
  res_result :: batch_outcome

text \<open>Timestamps are milliseconds; the ISO strings the code stores are never empty, so a
  timestamp is truthy exactly when it is present.\<close>

record BatchJob =
  job_id :: string
  job_status :: processing_status
  job_counts :: request_counts
  ended_at :: "nat option"
  cancel_initiated_at :: "nat option"
  expires_at :: nat
  created_at :: nat
  job_requests :: "batch_request list"
  job_results :: "batch_result list option"

text \<open>
  A job together with its worker.  \<open>processBatchAsync\<close> runs without interruption until it
  awaits \<open>claudeAdapter.createMessage\<close>; \<open>worker = Some (r # rs)\<close> is the worker suspended at
  that await for request \<open>r\<close>, with \<open>rs\<close> the iterations still to come, and \<open>worker = None\<close>
  is the worker that has returned.  Request handlers run only while the worker is
  suspended or has returned, so these are the states they can observe.
\<close>

record batch_system =
  job :: BatchJob
  worker :: "batch_request list option"

text \<open>\<open>batch.results.push(x)\<close>; the worker sets \<open>results\<close> to an array before its loop, so
  the push never finds it absent.\<close>

definition pushResult :: "BatchJob \<Rightarrow> batch_result \<Rightarrow> BatchJob" where
  "pushResult b x = b\<lparr>job_results := map_option (\<lambda>xs. xs @ [x]) (job_results b)\<rparr>"

definition markCanceled :: "BatchJob \<Rightarrow> batch_request \<Rightarrow> BatchJob" where
  "markCanceled b r =
     (let b1 = b\<lparr>job_counts := (job_counts b)\<lparr>canceled := canceled (job_counts b) + 1\<rparr>\<rparr>;
          b2 = b1\<lparr>job_counts := (job_counts b1)\<lparr>processing := processing (job_counts b1) - 1\<rparr>\<rparr>
      in pushResult b2 \<lparr>res_custom_id = br_custom_id r, res_result = ResultCanceled\<rparr>)"

definition markSucceeded :: "BatchJob \<Rightarrow> batch_request \<Rightarrow> json \<Rightarrow> BatchJob" where
  "markSucceeded b r response =
     (let b1 = pushResult b
                 \<lparr>res_custom_id = br_custom_id r, res_result = ResultSucceeded response\<rparr>;
          b2 = b1\<lparr>job_counts := (job_counts b1)\<lparr>succeeded := succeeded (job_counts b1) + 1\<rparr>\<rparr>
      in b2\<lparr>job_counts := (job_counts b2)\<lparr>processing := processing (job_counts b2) - 1\<rparr>\<rparr>)"

definition markErrored :: "BatchJob \<Rightarrow> batch_request \<Rightarrow> string \<Rightarrow> BatchJob" where
  "markErrored b r message =
     (let b1 = pushResult b
                 \<lparr>res_custom_id = br_custom_id r, res_result = ResultErrored message\<rparr>;
          b2 = b1\<lparr>job_counts := (job_counts b1)\<lparr>errored := errored (job_counts b1) + 1\<rparr>\<rparr>
      in b2\<lparr>job_counts := (job_counts b2)\<lparr>processing := processing (job_counts b2) - 1\<rparr>\<rparr>)"

text \<open>
  The \<open>for\<close> loop of \<open>processBatchAsync\<close> from the top of an iteration, run until the next
  await or to the end.  \<open>modelManager\<close> is \<open>ModelManager.getModelConfig\<close>; \<open>now\<close> is the clock.
\<close>

fun runWorker ::
  "(string \<Rightarrow> ModelConfig option) \<Rightarrow> nat \<Rightarrow> BatchJob \<Rightarrow> batch_request list \<Rightarrow> batch_system"
  where
  "runWorker modelManager now b [] =
     \<lparr>job = b\<lparr>job_status := Ended, ended_at := Some now\<rparr>, worker = None\<rparr>"
| "runWorker modelManager now b (request # rest) =
     (if cancel_initiated_at b \<noteq> None
      then runWorker modelManager now (markCanceled b request) rest
      else (case modelManager (req_model (br_body request)) of
              None \<Rightarrow>
                runWorker modelManager now
                  (markErrored b request
                     (''Model '' @ req_model (br_body request) @ '' not supported''))
                  rest
            | Some modelConfig \<Rightarrow> \<lparr>job = b, worker = Some (request # rest)\<rparr>))"

text \<open>The create handler: the job is built and stored, and \<open>processBatchAsync\<close> is called,
  which runs up to its first await before the handler goes on.\<close>

definition createBatch ::
  "(string \<Rightarrow> ModelConfig option) \<Rightarrow> nat \<Rightarrow> string \<Rightarrow> batch_request list \<Rightarrow> batch_system"
  where
  "createBatch modelManager now batchId requests =
     (let batch =
            \<lparr>job_id = batchId,
             job_status = Validating,
             job_counts =
               \<lparr>processing = int (length requests), succeeded = 0, errored = 0, canceled = 0\<rparr>,
             ended_at = None,
             cancel_initiated_at = None,
             expires_at = now + 24 * 60 * 60 * 1000,
             created_at = now,
             job_requests = requests,
             job_results = None\<rparr>;
          started = batch\<lparr>job_status := InProgress, job_results := Some []\<rparr>
      in runWorker modelManager now started (job_requests started))"

text \<open>The awaited \<open>createMessage\<close> call settles: the worker records the outcome for the
  request it was waiting on and runs on.\<close>

datatype settled = Resolved json | Rejected string

definition resume ::
  "(string \<Rightarrow> ModelConfig option) \<Rightarrow> nat \<Rightarrow> settled \<Rightarrow> batch_system \<Rightarrow> batch_system" where
  "resume modelManager now outcome sys =
     (case worker sys of
        Some (request # rest) \<Rightarrow>
          (case outcome of
             Resolved response \<Rightarrow>
               runWorker modelManager now (markSucceeded (job sys) request response) rest
           | Rejected message \<Rightarrow>
               runWorker modelManager now (markErrored (job sys) request message) rest)
      | Some [] \<Rightarrow> sys
      | None \<Rightarrow> sys)"

datatype api_error = InvalidRequestError | NotFoundError | ApiError

text \<open>The cancel handler on an existing job.\<close>

definition cancelBatch :: "nat \<Rightarrow> batch_system \<Rightarrow> api_error + batch_system" where
  "cancelBatch now sys =
     (if job_status (job sys) = Ended then Inl InvalidRequestError
      else Inr (sys\<lparr>job := (job sys)\<lparr>job_status := Canceling,
                                      cancel_initiated_at := Some now\<rparr>\<rparr>))"

text \<open>The results handler on an existing job: \<open>!batch.results\<close> holds only while
  \<open>results\<close> is absent (an empty array is truthy).\<close>

definition getResults :: "batch_system \<Rightarrow> api_error + batch_result list" where
  "getResults sys =
     (case job_results (job sys) of
        None \<Rightarrow> Inl InvalidRequestError
      | Some rs \<Rightarrow> Inr rs)"

text \<open>What can happen to a job after its creation, one step at a time: a cancel request, or
  the pending backend call settling.\<close>

datatype batch_action = Cancel nat | Settle nat settled

definition batchStep ::
  "(string \<Rightarrow> ModelConfig option) \<Rightarrow> batch_system \<Rightarrow> batch_action \<Rightarrow> batch_system" where
  "batchStep modelManager sys a =
     (case a of
        Cancel now \<Rightarrow> (case cancelBatch now sys of Inl e \<Rightarrow> sys | Inr sys' \<Rightarrow> sys')
      | Settle now outcome \<Rightarrow> resume modelManager now outcome sys)"

definition countsTotal :: "BatchJob \<Rightarrow> int" where
  "countsTotal b =
     processing (job_counts b) + succeeded (job_counts b) + errored (job_counts b)
     + canceled (job_counts b)"

text \<open>Sample data for closed instances: a model table that knows \<open>claude-3-haiku\<close> only.\<close>

definition sampleModels :: "string \<Rightarrow> ModelConfig option" where
  "sampleModels m =
     (if m = ''claude-3-haiku''
      then Some \<lparr>claudeModelName = ''claude-3-haiku'', openaiModelName = ''gpt-3.5-turbo'',
                 maxTokens = 4096\<rparr>
      else None)"

definition sampleBody :: "string \<Rightarrow> claude_request" where
  "sampleBody m =
     \<lparr>req_model = m,
      req_messages = [\<lparr>msg_role = User, msg_content = ContentString ''hello''\<rparr>],
      req_system = None, req_max_tokens = 100, req_temperature = None, req_top_p = None,
      req_stop_sequences = None, req_tools = None, req_stream = None, req_thinking = None\<rparr>"

definition sampleRequests :: "batch_request list" where
  "sampleRequests =
     [\<lparr>br_custom_id = ''r1'', br_body = sampleBody ''claude-3-haiku''\<rparr>,
      \<lparr>br_custom_id = ''r2'', br_body = sampleBody ''claude-3-haiku''\<rparr>]"

section \<open>Ephemeral cache (MemoryStore)\<close>

record 'v cache_item =
  item_value :: 'v
  expireTime :: int

text \<open>The store: the entries of the \<open>Map\<close> in insertion order, and whether the cleanup
  timer is running.  Times are milliseconds on the clock \<open>Date.now()\<close>, passed as \<open>now\<close>.\<close>

record 'v memory_store =
  cache :: "(string \<times> 'v cache_item) list"
  cleanupTimer :: bool

definition DEFAULT_TTL :: int where
  "DEFAULT_TTL = 60 * 60 * 1000"

text \<open>\<open>Map.prototype.set\<close> and \<open>Map.prototype.delete\<close>.\<close>

fun mapSet :: "string \<Rightarrow> 'a \<Rightarrow> (string \<times> 'a) list \<Rightarrow> (string \<times> 'a) list" where
  "mapSet k v [] = [(k, v)]"
| "mapSet k v ((k', v') # rest) =
     (if k' = k then (k, v) # rest else (k', v') # mapSet k v rest)"

definition mapDelete :: "string \<Rightarrow> (string \<times> 'a) list \<Rightarrow> (string \<times> 'a) list" where
  "mapDelete k m = filter (\<lambda>kv. fst kv \<noteq> k) m"

definition store_set ::
  "string \<Rightarrow> 'v \<Rightarrow> int option \<Rightarrow> int \<Rightarrow> 'v memory_store \<Rightarrow> 'v memory_store" where
  "store_set key val ttl now st =
     (let expire = now + (case ttl of Some t \<Rightarrow> t | None \<Rightarrow> DEFAULT_TTL);
          cacheItem = \<lparr>item_value = val, expireTime = expire\<rparr>
      in \<lparr>cache = mapSet key cacheItem (cache st), cleanupTimer = True\<rparr>)"

definition store_delete :: "string \<Rightarrow> 'v memory_store \<Rightarrow> 'v memory_store" where
  "store_delete key st = st\<lparr>cache := mapDelete key (cache st)\<rparr>"

definition store_get :: "string \<Rightarrow> int \<Rightarrow> 'v memory_store \<Rightarrow> 'v option \<times> 'v memory_store" where
  "store_get key now st =
     (case map_of (cache st) key of
        None \<Rightarrow> (None, st)
      | Some item \<Rightarrow>
          (if now > expireTime item then (None, store_delete key st)
           else (Some (item_value item), st)))"

definition cleanupExpired :: "int \<Rightarrow> 'v memory_store \<Rightarrow> 'v memory_store" where
  "cleanupExpired now st =
     (let kept = filter (\<lambda>kv. \<not> now > expireTime (snd kv)) (cache st)
      in \<lparr>cache = kept, cleanupTimer = (if kept = [] then False else cleanupTimer st)\<rparr>)"

section \<open>Model router (routeModel)\<close>

record RouterConfig =
  rc_default :: string
  rc_longContext :: "string option"
  rc_longContextThreshold :: "int option"
  rc_webSearch :: "string option"
  rc_background :: "string option"
  rc_think :: "string option"

text \<open>
  The tokenizer \<open>enc.encode\<close> is an external library: \<open>enc\<close> gives the length of the encoding
  of a text, or \<open>None\<close> when the call throws (the library rejects, for one, a text that
  holds one of its special tokens).  \<open>calculateTokenCount\<close> encodes the texts below and adds
  the lengths up; it throws when one of the calls does.
\<close>

fun partTexts :: "(json \<Rightarrow> string) \<Rightarrow> content_block \<Rightarrow> string list" where
  "partTexts stringify (TextBlock t) = [t]"
| "partTexts stringify (ToolUseBlock i n inp) = [stringify inp]"
| "partTexts stringify (ToolResultBlock i c) =
     [case c of TRString s \<Rightarrow> s | TRJson j \<Rightarrow> stringify j]"
| "partTexts stringify b = []"

definition messageTexts :: "(json \<Rightarrow> string) \<Rightarrow> claude_message \<Rightarrow> string list" where
  "messageTexts stringify m =
     (case msg_content m of
        ContentString s \<Rightarrow> [s]
      | ContentBlocks bs \<Rightarrow> concat (map (partTexts stringify) bs))"

fun systemItemTexts :: "system_item \<Rightarrow> string list" where
  "systemItemTexts (SysItemString s) = []"
| "systemItemTexts (SysItemBlock ty txt) =
     (if ty \<noteq> ''text'' then [] else (case txt of Some t \<Rightarrow> [t] | None \<Rightarrow> []))"

definition systemTexts :: "system_prompt option \<Rightarrow> string list" where
  "systemTexts s =
     (case s of
        Some (SysString t) \<Rightarrow> [t]
      | Some (SysArray items) \<Rightarrow> concat (map systemItemTexts items)
      | Some (SysObject t) \<Rightarrow> []
      | None \<Rightarrow> [])"

definition toolTexts :: "(json \<Rightarrow> string) \<Rightarrow> claude_tool \<Rightarrow> string list" where
  "toolTexts stringify t =
     (tool_name t @ (case tool_description t of Some d \<Rightarrow> d | None \<Rightarrow> []))
     # (case tool_input_schema t of
          Some sch \<Rightarrow> (if truthy sch then [stringify sch] else [])
        | None \<Rightarrow> [])"

fun sumTokens :: "nat option list \<Rightarrow> nat option" where
  "sumTokens [] = Some 0"
| "sumTokens (None # rest) = None"
| "sumTokens (Some n # rest) = (case sumTokens rest of Some m \<Rightarrow> Some (n + m) | None \<Rightarrow> None)"

definition calculateTokenCount ::
  "(string \<Rightarrow> nat option) \<Rightarrow> (json \<Rightarrow> string) \<Rightarrow> claude_message list \<Rightarrow>
   system_prompt option \<Rightarrow> claude_tool list \<Rightarrow> nat option" where
  "calculateTokenCount enc stringify messages system tools =
     sumTokens (map enc
       (concat (map (messageTexts stringify) messages)
        @ systemTexts system
        @ concat (map (toolTexts stringify) tools)))"

definition webSearchMarker :: string where
  "webSearchMarker = ''You are an assistant for performing a web search tool use''"

definition hasExactlyOneWebSearchTool :: "claude_request \<Rightarrow> bool" where
  "hasExactlyOneWebSearchTool request =
     (case req_tools request of
        Some [t] \<Rightarrow> tool_type t = Some ''web_search_20250305'' \<and> tool_name t = ''web_search''
      | Some other \<Rightarrow> False
      | None \<Rightarrow> False)"

fun systemItemText :: "system_item \<Rightarrow> string" where
  "systemItemText (SysItemString s) = s"
| "systemItemText (SysItemBlock ty txt) = (case txt of Some t \<Rightarrow> t | None \<Rightarrow> [])"

definition systemText :: "system_prompt \<Rightarrow> string" where
  "systemText s =
     (case s of
        SysArray items \<Rightarrow> join '' '' (map systemItemText items)
      | SysString t \<Rightarrow> t
      | SysObject txt \<Rightarrow> (case txt of Some t \<Rightarrow> t | None \<Rightarrow> []))"

definition hasWebSearchSystemIndicator :: "claude_request \<Rightarrow> bool" where
  "hasWebSearchSystemIndicator request =
     (case req_system request of
        Some s \<Rightarrow>
          (if systemTruthy (Some s) then str_includes (systemText s) webSearchMarker else False)
      | None \<Rightarrow> False)"

definition thinkingTruthy :: "claude_request \<Rightarrow> bool" where
  "thinkingTruthy request = (case req_thinking request of Some j \<Rightarrow> truthy j | None \<Rightarrow> False)"

text \<open>\<open>routeModel\<close>; the \<open>catch\<close> of its \<open>try\<close> is the \<open>None\<close> case of the token count.\<close>

definition routeModel ::
  "(string \<Rightarrow> nat option) \<Rightarrow> (json \<Rightarrow> string) \<Rightarrow> claude_request \<Rightarrow> RouterConfig \<Rightarrow> string"
  where
  "routeModel enc stringify request routerConfig =
     (case calculateTokenCount enc stringify (req_messages request) (req_system request)
             (case req_tools request of Some ts \<Rightarrow> ts | None \<Rightarrow> []) of
        None \<Rightarrow> rc_default routerConfig
      | Some tokenCount \<Rightarrow>
          (let longContextThreshold =
                 (case rc_longContextThreshold routerConfig of
                    Some n \<Rightarrow> (if n \<noteq> 0 then n else 60000)
                  | None \<Rightarrow> 60000)
           in if hasExactlyOneWebSearchTool request \<and> hasWebSearchSystemIndicator request
                 \<and> truthy_str (rc_webSearch routerConfig)
              then (case rc_webSearch routerConfig of Some w \<Rightarrow> w | None \<Rightarrow> [])
              else if int tokenCount > longContextThreshold
                      \<and> truthy_str (rc_longContext routerConfig)
              then (case rc_longContext routerConfig of Some w \<Rightarrow> w | None \<Rightarrow> [])
              else if str_includes (req_model request) ''haiku''
                      \<and> truthy_str (rc_background routerConfig)
              then (case rc_background routerConfig of Some w \<Rightarrow> w | None \<Rightarrow> [])
              else if thinkingTruthy request \<and> truthy_str (rc_think routerConfig)
              then (case rc_think routerConfig of Some w \<Rightarrow> w | None \<Rightarrow> [])
              else rc_default routerConfig))"

text \<open>Sample data: a tokenizer that counts characters and rejects the special token
  \<open><|endoftext|>\<close>, a web-search request, and a policy with every route configured.\<close>

definition sampleEnc :: "string \<Rightarrow> nat option" where
  "sampleEnc s = (if str_includes s ''<|endoftext|>'' then None else Some (length s))"

definition webSearchTool :: claude_tool where
  "webSearchTool =
     \<lparr>tool_type = Some ''web_search_20250305'', tool_name = ''web_search'',
      tool_description = None, tool_input_schema = None\<rparr>"

definition webSearchRequest :: "string \<Rightarrow> claude_request" where
  "webSearchRequest query =
     \<lparr>req_model = ''claude-sonnet'',
      req_messages = [\<lparr>msg_role = User, msg_content = ContentString query\<rparr>],
      req_system = Some (SysString ''You are an assistant for performing a web search tool use''),
      req_max_tokens = 1024, req_temperature = None, req_top_p = None,
      req_stop_sequences = None, req_tools = Some [webSearchTool], req_stream = None,
      req_thinking = None\<rparr>"

definition samplePolicy :: RouterConfig where
  "samplePolicy =
     \<lparr>rc_default = ''default-model'', rc_longContext = Some ''long-model'',
      rc_longContextThreshold = Some 10, rc_webSearch = Some ''search-model'',
      rc_background = Some ''background-model'', rc_think = Some ''think-model''\<rparr>"

section \<open>Bracket scan of a search result (parseSearchResult)\<close>

text \<open>\<open>String.prototype.lastIndexOf\<close> for a single character; \<open>None\<close> stands for \<open>-1\<close>.\<close>

fun lastIndexOf :: "char \<Rightarrow> string \<Rightarrow> nat option" where
  "lastIndexOf c [] = None"
| "lastIndexOf c (x # xs) =
     (case lastIndexOf c xs of
        Some i \<Rightarrow> Some (Suc i)
      | None \<Rightarrow> (if x = c then Some 0 else None))"

text \<open>
  The backward loop \<open>for (i = lastBracketIndex; i >= 0; i--)\<close> from index \<open>i\<close> with the
  current \<open>bracketCount\<close>; the result is \<open>firstBracketIndex\<close>, \<open>None\<close> for \<open>-1\<close>.  The loop
  starts at an index inside the text and only walks down, so every read is in range.
\<close>

fun scanBack :: "string \<Rightarrow> nat \<Rightarrow> int \<Rightarrow> nat option" where
  "scanBack text 0 bracketCount =
     (if text ! 0 = CHR '']'' then None
      else if text ! 0 = CHR ''['' then (if bracketCount - 1 = 0 then Some 0 else None)
      else None)"
| "scanBack text (Suc i) bracketCount =
     (if text ! Suc i = CHR '']'' then scanBack text i (bracketCount + 1)
      else if text ! Suc i = CHR ''['' then
        (if bracketCount - 1 = 0 then Some (Suc i) else scanBack text i (bracketCount - 1))
      else scanBack text i bracketCount)"

text \<open>\<open>String.prototype.trim\<close> and \<open>substring(a, b)\<close> for \<open>a \<le> b\<close>.\<close>

definition trim :: "string \<Rightarrow> string" where
  "trim s = rev (dropWhile is_space (rev (dropWhile is_space s)))"

definition substring :: "string \<Rightarrow> nat \<Rightarrow> nat \<Rightarrow> string" where
  "substring s a b = take (b - a) (drop a s)"

datatype search_parse = ReturnsNull | Throws | Returns string json

definition parseSearchResult :: "(string \<Rightarrow> json option) \<Rightarrow> string \<Rightarrow> search_parse" where
  "parseSearchResult parse text =
     (case lastIndexOf CHR '']'' text of
        None \<Rightarrow> ReturnsNull
      | Some lastBracketIndex \<Rightarrow>
          (case scanBack text lastBracketIndex 0 of
             None \<Rightarrow> ReturnsNull
           | Some firstBracketIndex \<Rightarrow>
               (let queryPart = trim (substring text 0 firstBracketIndex);
                    arrayPart = substring text firstBracketIndex (lastBracketIndex + 1)
                in (case parse arrayPart of
                      None \<Rightarrow> Throws
                    | Some linksArray \<Rightarrow> Returns queryPart linksArray))))"

subsection \<open>What the scan is meant to find\<close>

text \<open>
  Bracket depth of the stretch of text from index \<open>j\<close> to index \<open>l\<close> inclusive, read
  backward: every \<open>]\<close> opens a level, every \<open>[\<close> closes one.  \<open>l\<close> is the last \<open>]\<close> of the
  text; \<open>f\<close> is its matching \<open>[\<close> when the depth returns to zero at \<open>f\<close> for the first time
  on the way back from \<open>l\<close>.
\<close>

definition weight :: "char \<Rightarrow> int" where
  "weight c = (if c = CHR '']'' then 1 else if c = CHR ''['' then - 1 else 0)"

definition depth :: "string \<Rightarrow> nat \<Rightarrow> nat \<Rightarrow> int" where
  "depth text j l = sum_list (map weight (substring text j (Suc l)))"

definition isLastClose :: "string \<Rightarrow> nat \<Rightarrow> bool" where
  "isLastClose text l =
     (l < length text \<and> text ! l = CHR '']'' \<and> CHR '']'' \<notin> set (drop (Suc l) text))"

definition matchesOpen :: "string \<Rightarrow> nat \<Rightarrow> nat \<Rightarrow> bool" where
  "matchesOpen text l f =
     (f \<le> l \<and> depth text f l = 0 \<and> (\<forall>j \<in> set [Suc f..<Suc l]. 0 < depth text j l))"

definition searchText :: string where
  "searchText = ''weather in NYC [{\"title\":\"a\",\"url\":\"b\"}]''"

section \<open>Theorems\<close>

text \<open>
  C1.  For every protocol-A request and model mapping, the backend request built by
  \<open>convertClaudeToOpenAI\<close> has \<open>max_tokens\<close> equal to the minimum of the requested
  \<open>max_tokens\<close>, the mapping's \<open>maxTokens\<close> and the hard ceiling, and the hard ceiling is the
  fixed constant 8192.
\<close>

theorem convertClaudeToOpenAI_max_tokens:
  "oa_max_tokens (convertClaudeToOpenAI stringify claudeRequest modelConfig) =
     Min {req_max_tokens claudeRequest, maxTokens modelConfig, 8192}"
  by (simp add: convertClaudeToOpenAI_def min3_def absoluteMaxTokens_def Let_def min.commute
      min.left_commute)

lemma toolResultOf_first:
  "find is_tool_result bs = Some (ToolResultBlock i c) \<Longrightarrow>
   \<exists>others. concat (map toolResultOf bs) = (i, c) # others"
proof (induction bs)
  case Nil
  then show ?case by simp
next
  case (Cons b bs)
  then show ?case by (cases b) auto
qed

text \<open>
  C10.  A message whose content array holds at least one \<open>tool_result\<close> block and no
  \<open>tool_use\<close> block converts to exactly one backend message: role \<open>tool\<close>, the content
  and call id of the first \<open>tool_result\<close> block.  Every further \<open>tool_result\<close> block
  and every other block is dropped: the result is the one obtained from the first
  \<open>tool_result\<close> block alone.
\<close>

theorem convertMessage_first_tool_result_only:
  assumes "msg_content m = ContentBlocks bs"
    and "\<forall>b \<in> set bs. \<not> is_tool_use b"
    and "find is_tool_result bs = Some (ToolResultBlock i c)"
  shows "convertMessage stringify m =
           \<lparr>oa_role = RoleTool,
            oa_content = OString (case c of TRString s \<Rightarrow> s | TRJson j \<Rightarrow> stringify j),
            oa_tool_calls = None,
            oa_tool_call_id = Some i\<rparr>
         \<and> convertMessage stringify m =
           convertMessage stringify (m\<lparr>msg_content := ContentBlocks [ToolResultBlock i c]\<rparr>)"
proof -
  from assms(2) have nouse: "filter is_tool_use bs = []"
    by (simp add: filter_empty_conv)
  from toolResultOf_first [OF assms(3)]
  obtain others where first: "concat (map toolResultOf bs) = (i, c) # others" ..
  show ?thesis
    by (simp add: convertMessage_def assms(1) nouse first toolResultMessage_def)
qed

theorem convertMessage_first_tool_result_only_witness:
  "convertMessage (\<lambda>j. ''<json>'')
     \<lparr>msg_role = User,
      msg_content = ContentBlocks
        [TextBlock ''see results'',
         ToolResultBlock ''toolu_1'' (TRString ''first''),
         ToolResultBlock ''toolu_2'' (TRString ''second'')]\<rparr> =
   \<lparr>oa_role = RoleTool, oa_content = OString ''first'', oa_tool_calls = None,
    oa_tool_call_id = Some ''toolu_1''\<rparr>"
  using convertMessage_first_tool_result_only
    [of "\<lparr>msg_role = User,
      msg_content = ContentBlocks
        [TextBlock ''see results'',
         ToolResultBlock ''toolu_1'' (TRString ''first''),
         ToolResultBlock ''toolu_2'' (TRString ''second'')]\<rparr>"
      "[TextBlock ''see results'',
         ToolResultBlock ''toolu_1'' (TRString ''first''),
         ToolResultBlock ''toolu_2'' (TRString ''second'')]"
      "''toolu_1''" "TRString ''first''" "\<lambda>j. ''<json>''"]
  by simp

subsection \<open>The stream reconstructor\<close>

lemma processChunk_phase:
  assumes "loopInv st"
  shows "foldl orderStep (phaseOf st) (fst (processChunk rnd mid mdl st c))
           = phaseOf (snd (processChunk rnd mid mdl st c))
         \<and> loopInv (snd (processChunk rnd mid mdl st c))
         \<and> hasStarted (snd (processChunk rnd mid mdl st c))"
  using assms
  by (auto simp: processChunk_def loopInv_def phaseOf_def Let_def
           split: option.splits)

lemma processChunks_phase:
  "loopInv st \<Longrightarrow>
   foldl orderStep (phaseOf st) (fst (processChunks rnd mid mdl st cs))
     = phaseOf (snd (processChunks rnd mid mdl st cs))
   \<and> loopInv (snd (processChunks rnd mid mdl st cs))
   \<and> (cs \<noteq> [] \<longrightarrow> hasStarted (snd (processChunks rnd mid mdl st cs)))"
proof (induction cs arbitrary: st)
  case Nil
  then show ?case by simp
next
  case (Cons c cs)
  obtain e1 s1 where p1: "processChunk rnd mid mdl st c = (e1, s1)" by force
  obtain e2 s2 where p2: "processChunks rnd mid mdl s1 cs = (e2, s2)" by force
  from processChunk_phase [OF Cons.prems, of rnd mid mdl c] p1
  have a: "foldl orderStep (phaseOf st) e1 = phaseOf s1" "loopInv s1" "hasStarted s1"
    by simp_all
  from Cons.IH [OF a(2)] p2
  have b: "foldl orderStep (phaseOf s1) e2 = phaseOf s2" "loopInv s2"
    by simp_all
  have c: "hasStarted s2"
  proof (cases cs)
    case Nil
    with p2 a(3) show ?thesis by simp
  next
    case (Cons x xs)
    with Cons.IH [OF a(2)] p2 show ?thesis by simp
  qed
  show ?case by (simp add: p1 p2 a b c)
qed

lemma deltas_phase:
  "foldl orderStep (InBlock i) (map (\<lambda>p. ContentBlockDelta i (f p)) ps) = InBlock i"
  by (induction ps) simp_all

lemma block_phase:
  "prevBelow prev i \<Longrightarrow>
   foldl orderStep (Between prev)
     (ContentBlockStart i b # map (\<lambda>p. ContentBlockDelta i (f p)) ps @ [ContentBlockStop i])
   = Between (Some i)"
  by (cases prev) (simp_all add: deltas_phase)

lemma emitToolCalls_phase:
  "prevBelow prev n \<Longrightarrow>
   \<exists>l. foldl orderStep (Between prev) (emitToolCalls parse stringify n tcs) = Between l"
proof (induction tcs arbitrary: prev n)
  case Nil
  then show ?case by simp
next
  case (Cons tc tcs)
  show ?case
  proof (cases "buf_name tc = []")
    case True
    with Cons show ?thesis by simp
  next
    case False
    have "prevBelow (Some n) (n + 1)" by simp
    from Cons.IH [OF this] obtain l where
      l: "foldl orderStep (Between (Some n)) (emitToolCalls parse stringify (n + 1) tcs) = Between l" ..
    have blk: "foldl orderStep (Between prev) (toolCallEvents parse stringify n tc) = Between (Some n)"
      unfolding toolCallEvents_def Let_def by (rule block_phase [OF Cons.prems])
    have "emitToolCalls parse stringify n (tc # tcs) =
            toolCallEvents parse stringify n tc @ emitToolCalls parse stringify (n + 1) tcs"
      using False by simp
    then show ?thesis
      by (simp only: foldl_append blk l) blast
  qed
qed

lemma explanatoryThrows_iff:
  "explanatoryThrows tcs =
     (case find (\<lambda>tc. buf_name tc \<noteq> []) tcs of
        Some tc \<Rightarrow> buf_name tc \<in> set throwingNames
      | None \<Rightarrow> False)"
proof (cases "find (\<lambda>tc. buf_name tc \<noteq> []) tcs")
  case None
  then show ?thesis
    by (simp add: explanatoryThrows_def explanatoryText_def explanatoryTexts_def Let_def)
next
  case (Some tc)
  then show ?thesis
    by (simp add: explanatoryThrows_def explanatoryText_def explanatoryTexts_def Let_def
        throwingNames_def)
qed

lemma explanatory_phase:
  assumes "prevBelow prev n" and "\<not> explanatoryThrows tcs"
  shows "foldl orderStep (Between prev) (explanatoryEvents n tcs) = Between (Some n)"
proof (cases "explanatoryText tcs")
  case (TableText t)
  have "explanatoryEvents n tcs =
          ContentBlockStart n (OutText [])
          # map (\<lambda>piece. ContentBlockDelta n (TextDelta piece)) (slices 5 0 t)
          @ [ContentBlockStop n]"
    by (simp add: explanatoryEvents_def TableText)
  then show ?thesis by (simp only: block_phase [OF assms(1)])
next
  case (InheritedFunction len)
  with assms(2) have "explanatoryEvents n tcs = [ContentBlockStart n (OutText []), ContentBlockStop n]"
    by (simp add: explanatoryEvents_def explanatoryThrows_def)
  with assms(1) show ?thesis by (cases prev) simp_all
next
  case InheritedObject
  then have "explanatoryEvents n tcs = [ContentBlockStart n (OutText []), ContentBlockStop n]"
    by (simp add: explanatoryEvents_def)
  with assms(1) show ?thesis by (cases prev) simp_all
qed

lemma finalize_phase:
  assumes "loopInv st" and "hasStarted st" and "\<not> finalizeThrows st"
  shows "foldl orderStep (phaseOf st) (finalize parse stringify st) = Done"
proof -
  let ?completed = "map snd (toolCallsBuffer st)"
  let ?named = "length ?completed > 0 \<and> list_ex (\<lambda>tc. buf_name tc \<noteq> []) ?completed"
  let ?n = "(if length (activeContentBlocks st) > 0
             then Max (set (activeContentBlocks st)) + 1 else 0)"
  let ?n2 = "(if ?named then ?n + 1 else ?n)"
  let ?stops = "map ContentBlockStop (activeContentBlocks st)"
  let ?expl = "(if ?named then explanatoryEvents ?n ?completed else [])"
  have s1: "\<exists>prev. foldl orderStep (phaseOf st) ?stops = Between prev \<and> prevBelow prev ?n"
    using assms(1,2) by (auto simp: loopInv_def phaseOf_def)
  then obtain prev where p: "foldl orderStep (phaseOf st) ?stops = Between prev"
    and pb: "prevBelow prev ?n" by blast
  have s2: "\<exists>prev2. foldl orderStep (Between prev) ?expl = Between prev2 \<and> prevBelow prev2 ?n2"
  proof (cases ?named)
    case True
    with assms(3) have "\<not> explanatoryThrows ?completed"
      by (simp add: finalizeThrows_def Let_def)
    from explanatory_phase [OF pb this] True show ?thesis by simp
  next
    case False
    then show ?thesis using pb by auto
  qed
  then obtain prev2 where p2: "foldl orderStep (Between prev) ?expl = Between prev2"
    and pb2: "prevBelow prev2 ?n2" by blast
  from emitToolCalls_phase [OF pb2] obtain l where
    p3: "foldl orderStep (Between prev2) (emitToolCalls parse stringify ?n2 ?completed) = Between l" ..
  have fin: "finalize parse stringify st =
      ?stops @ ?expl @ emitToolCalls parse stringify ?n2 ?completed
      @ [MessageDelta ''tool_use'' (totalOutputTokens st) (totalInputTokens st), MessageStop]"
    using assms(3) by (simp add: finalize_def Let_def)
  show ?thesis
    unfolding fin foldl_append p p2 p3 by simp
qed

lemma processChunk_hasFinished:
  "hasFinished (snd (processChunk rnd mid mdl st c)) = (hasFinished st \<or> finishSignal c)"
  by (auto simp: processChunk_def finishSignal_def Let_def split: option.splits)

lemma processChunks_hasFinished:
  "hasFinished (snd (processChunks rnd mid mdl st cs)) = (hasFinished st \<or> list_ex finishSignal cs)"
proof (induction cs arbitrary: st)
  case Nil
  then show ?case by simp
next
  case (Cons c cs)
  then show ?case
    by (simp add: split_beta Let_def processChunk_hasFinished)
qed

lemma loopInv_initial: "loopInv initialState" "phaseOf initialState = Init"
  by (simp_all add: loopInv_def phaseOf_def initialState_def)

text \<open>
  C2 (as amended).  For every backend chunk sequence in which some chunk carries a finish
  signal and on which the generator does not end by throwing, the emitted events follow
  the grammar \<open>wellOrdered\<close>: exactly one \<open>message_start\<close>; then the content blocks, each
  one start, zero or more deltas and one stop with the block's index, the indices
  strictly increasing in emission order; then exactly one \<open>message_delta\<close>; then exactly
  one \<open>message_stop\<close>.
\<close>

theorem stream_wellOrdered_when_finished:
  assumes "list_ex finishSignal chunks"
    and "\<not> generatorThrows rnd messageId claudeModel chunks"
  shows "wellOrdered (convertOpenAIStreamToClaude rnd parse stringify messageId claudeModel chunks)"
proof -
  obtain evs st where pc: "processChunks rnd messageId claudeModel initialState chunks = (evs, st)"
    by force
  from assms(1) have ne: "chunks \<noteq> []" by auto
  from processChunks_phase [OF loopInv_initial(1), of rnd messageId claudeModel chunks] pc ne
  have a: "foldl orderStep Init evs = phaseOf st" "loopInv st" "hasStarted st"
    by (simp_all add: loopInv_initial)
  from processChunks_hasFinished [of rnd messageId claudeModel initialState chunks] pc assms(1)
  have fin: "hasFinished st" by simp
  from assms(2) pc fin have nt: "\<not> finalizeThrows st"
    by (simp add: generatorThrows_def)
  show ?thesis
    by (simp add: wellOrdered_def convertOpenAIStreamToClaude_def pc fin a
        finalize_phase [OF a(2) a(3) nt])
qed

theorem stream_wellOrdered_when_finished_witness:
  "list_ex finishSignal (textChunk ''hi'' # weatherChunks)
   \<and> \<not> generatorThrows sampleRnd ''msg_1'' ''claude'' (textChunk ''hi'' # weatherChunks)
   \<and> wellOrdered (convertOpenAIStreamToClaude sampleRnd sampleParse sampleStringify
        ''msg_1'' ''claude'' (textChunk ''hi'' # weatherChunks))"
proof -
  have h: "list_ex finishSignal (textChunk ''hi'' # weatherChunks)"
    by (simp add: finishSignal_def finishChunk_def choiceOf_def weatherChunks_def)
  have n: "\<not> generatorThrows sampleRnd ''msg_1'' ''claude'' (textChunk ''hi'' # weatherChunks)"
    by (simp add: generatorThrows_def weatherChunks_def textChunk_def fragmentChunk_def
        finishChunk_def processChunk_def initialState_def deltaOf_def choiceOf_def Let_def
        bufferFragment_def newEntry_def applyFragment_def finalizeThrows_def
        explanatoryThrows_def explanatoryText_def explanatoryTexts_def)
  from stream_wellOrdered_when_finished [OF h n] h n show ?thesis by blast
qed

text \<open>
  C2 as stated, for every chunk sequence, does not hold: a stream that ends without a
  finish signal yields \<open>message_start\<close> and an opened text block that is never stopped,
  with no \<open>message_delta\<close> and no \<open>message_stop\<close>; an empty stream yields nothing at all.
\<close>

theorem stream_without_finish_not_wellOrdered:
  "convertOpenAIStreamToClaude sampleRnd sampleParse sampleStringify
     ''msg_1'' ''claude'' [textChunk ''hi''] =
   [MessageStart ''msg_1'' ''claude'', ContentBlockStart 0 (OutText []),
    ContentBlockDelta 0 (TextDelta ''hi'')]
   \<and> \<not> wellOrdered (convertOpenAIStreamToClaude sampleRnd sampleParse sampleStringify
        ''msg_1'' ''claude'' [textChunk ''hi''])
   \<and> convertOpenAIStreamToClaude sampleRnd sampleParse sampleStringify
        ''msg_1'' ''claude'' [] = []
   \<and> \<not> wellOrdered (convertOpenAIStreamToClaude sampleRnd sampleParse sampleStringify
        ''msg_1'' ''claude'' [])"
  by (simp add: convertOpenAIStreamToClaude_def processChunk_def textChunk_def initialState_def
      deltaOf_def choiceOf_def wellOrdered_def Let_def)

lemma processChunk_no_delta:
  "filter isMessageDelta (fst (processChunk rnd mid mdl st c)) = []"
  by (auto simp: processChunk_def Let_def split: option.splits)

lemma processChunks_no_delta:
  "filter isMessageDelta (fst (processChunks rnd mid mdl st cs)) = []"
  by (induction cs arbitrary: st) (simp_all add: split_beta Let_def processChunk_no_delta)

lemma deltas_no_delta:
  "filter isMessageDelta (map (\<lambda>p. ContentBlockDelta i (f p)) ps) = []"
  by (induction ps) simp_all

lemma emitToolCalls_no_delta:
  "filter isMessageDelta (emitToolCalls parse stringify n tcs) = []"
  by (induction tcs arbitrary: n) (simp_all add: toolCallEvents_def Let_def deltas_no_delta)

lemma stops_no_delta: "filter isMessageDelta (map ContentBlockStop xs) = []"
  by (induction xs) simp_all

lemma explanatory_no_delta:
  "filter isMessageDelta (explanatoryEvents n tcs) = []"
  by (cases "explanatoryText tcs") (simp_all add: explanatoryEvents_def deltas_no_delta)

lemma finalize_delta:
  "filter isMessageDelta (finalize parse stringify st) =
     (if finalizeThrows st then []
      else [MessageDelta ''tool_use'' (totalOutputTokens st) (totalInputTokens st)])"
  by (simp add: finalize_def Let_def emitToolCalls_no_delta explanatory_no_delta
      stops_no_delta)

text \<open>
  On every finished stream on which the generator does not throw there is exactly one
  \<open>message_delta\<close>, with the stop reason \<open>tool_use\<close> and the accumulated usage, whatever the
  chunks carried.
\<close>

lemma stream_message_delta_when_completed:
  assumes "list_ex finishSignal chunks"
    and "\<not> generatorThrows rnd messageId claudeModel chunks"
  shows "filter isMessageDelta
           (convertOpenAIStreamToClaude rnd parse stringify messageId claudeModel chunks) =
         [MessageDelta ''tool_use''
            (totalOutputTokens (snd (processChunks rnd messageId claudeModel initialState chunks)))
            (totalInputTokens (snd (processChunks rnd messageId claudeModel initialState chunks)))]"
proof -
  obtain evs st where pc: "processChunks rnd messageId claudeModel initialState chunks = (evs, st)"
    by force
  from processChunks_hasFinished [of rnd messageId claudeModel initialState chunks] pc assms(1)
  have fin: "hasFinished st" by simp
  from assms(2) pc fin have nt: "\<not> finalizeThrows st"
    by (simp add: generatorThrows_def)
  from processChunks_no_delta [of rnd messageId claudeModel initialState chunks] pc
  have nd: "filter isMessageDelta evs = []" by simp
  show ?thesis
    by (simp add: convertOpenAIStreamToClaude_def pc fin nd nt finalize_delta)
qed

lemma text_only_stream_reports_tool_use:
  "filter isMessageDelta
     (convertOpenAIStreamToClaude sampleRnd sampleParse sampleStringify
        ''msg_1'' ''claude'' [textChunk ''hi'', finishChunk ''stop'']) =
   [MessageDelta ''tool_use'' 0 0]"
  by (simp add: convertOpenAIStreamToClaude_def processChunk_def textChunk_def finishChunk_def
      initialState_def deltaOf_def choiceOf_def Let_def finalize_def finalizeThrows_def)

text \<open>
  C9 (the code departs from it).  The finalisation is written to end every finished stream
  with one \<open>message_delta\<close> whose stop reason is the constant \<open>tool_use\<close>.  For a finished
  stream whose tool call is named \<open>constructor\<close>, the lookup of the explanatory sentence
  finds the function inherited from \<open>Object.prototype\<close>, and the generator throws at
  \<open>explanatoryText.slice\<close> right after the \<open>content_block_start\<close> of the explanatory block:
  the events are \<open>message_start\<close> and that block start, and no \<open>message_delta\<close> is emitted.
\<close>

theorem stream_throws_on_inherited_tool_name:
  "list_ex finishSignal constructorChunks
   \<and> generatorThrows sampleRnd ''msg_1'' ''claude'' constructorChunks
   \<and> convertOpenAIStreamToClaude sampleRnd sampleParse sampleStringify ''msg_1'' ''claude''
        constructorChunks =
       [MessageStart ''msg_1'' ''claude'', ContentBlockStart 0 (OutText [])]
   \<and> filter isMessageDelta
        (convertOpenAIStreamToClaude sampleRnd sampleParse sampleStringify ''msg_1'' ''claude''
           constructorChunks) = []"
  by (simp add: constructorChunks_def generatorThrows_def convertOpenAIStreamToClaude_def
      fragmentChunk_def finishChunk_def finishSignal_def processChunk_def initialState_def
      deltaOf_def choiceOf_def Let_def bufferFragment_def newEntry_def applyFragment_def
      finalize_def finalizeThrows_def explanatoryThrows_def explanatoryText_def
      explanatoryTexts_def explanatoryEvents_def)

lemma map_of_update_key:
  "map_of (map (\<lambda>(k', e). if k' = key then (k', f e) else (k', e)) buf) k =
     (if k = key then map_option f (map_of buf k) else map_of buf k)"
  by (induction buf) auto

lemma map_of_bufferFragment:
  "map_of (bufferFragment rnd buf d) k =
     (if fragKey d = k
      then Some (applyFragment d (case map_of buf k of Some e \<Rightarrow> e | None \<Rightarrow> newEntry rnd buf d))
      else map_of buf k)"
proof (cases "map_of buf (fragKey d)")
  case None
  then show ?thesis
    by (simp add: bufferFragment_def fragKey_def [symmetric] Let_def map_of_update_key
        map_add_def split: option.splits)
next
  case (Some e)
  then show ?thesis
    by (auto simp: bufferFragment_def fragKey_def [symmetric] Let_def map_of_update_key)
qed

lemma foldl_buffer_present:
  "map_of buf k = Some e \<Longrightarrow>
   map_of (foldl (bufferFragment rnd) buf ds) k =
     Some (accumulate e (filter (\<lambda>d. fragKey d = k) ds))"
proof (induction ds arbitrary: buf e)
  case Nil
  then show ?case by (simp add: accumulate_def)
next
  case (Cons d ds)
  show ?case
  proof (cases "fragKey d = k")
    case True
    with Cons.prems have "map_of (bufferFragment rnd buf d) k = Some (applyFragment d e)"
      by (simp add: map_of_bufferFragment)
    from Cons.IH [OF this] True show ?thesis by (simp add: accumulate_def)
  next
    case False
    with Cons.prems have "map_of (bufferFragment rnd buf d) k = Some e"
      by (simp add: map_of_bufferFragment)
    from Cons.IH [OF this] False show ?thesis by simp
  qed
qed

lemma foldl_buffer_absent:
  "map_of buf k = None \<Longrightarrow> filter (\<lambda>d. fragKey d = k) ds = d # rest \<Longrightarrow>
   \<exists>b. map_of (foldl (bufferFragment rnd) buf ds) k =
         Some (accumulate (newEntry rnd b d) (d # rest))"
proof (induction ds arbitrary: buf)
  case Nil
  then show ?case by simp
next
  case (Cons x ds)
  show ?case
  proof (cases "fragKey x = k")
    case True
    with Cons.prems have xd: "x = d" and rest: "filter (\<lambda>d. fragKey d = k) ds = rest"
      by simp_all
    from True Cons.prems(1)
    have "map_of (bufferFragment rnd buf x) k = Some (applyFragment x (newEntry rnd buf x))"
      by (simp add: map_of_bufferFragment)
    from foldl_buffer_present [OF this, of rnd ds] xd rest show ?thesis
      by (auto simp: accumulate_def)
  next
    case False
    with Cons.prems have n: "map_of (bufferFragment rnd buf x) k = None"
      and f: "filter (\<lambda>d. fragKey d = k) ds = d # rest"
      by (simp_all add: map_of_bufferFragment)
    from Cons.IH [OF n f] show ?thesis by simp
  qed
qed

lemma applyFragment_fields:
  "buf_arguments (applyFragment d e) = buf_arguments e @ fragArgs d"
  "buf_name (applyFragment d e) = (if fragName d \<noteq> [] then fragName d else buf_name e)"
  "buf_id e \<noteq> [] \<Longrightarrow> buf_id (applyFragment d e) = buf_id e"
  by (auto simp: applyFragment_def fragArgs_def fragName_def Let_def split: option.splits)

lemma accumulate_arguments:
  "buf_arguments (accumulate e ds) = buf_arguments e @ concat (map fragArgs ds)"
  unfolding accumulate_def
  by (induction ds arbitrary: e) (simp_all add: applyFragment_fields)

lemma accumulate_name:
  "buf_name (accumulate e ds) = last (buf_name e # filter (\<lambda>x. x \<noteq> []) (map fragName ds))"
  unfolding accumulate_def
  by (induction ds arbitrary: e) (simp_all add: applyFragment_fields)

lemma accumulate_id:
  "buf_id e \<noteq> [] \<Longrightarrow> buf_id (accumulate e ds) = buf_id e"
  unfolding accumulate_def
  by (induction ds arbitrary: e) (simp_all add: applyFragment_fields)

lemma newEntry_fields:
  "buf_name (newEntry rnd b d) = []"
  "buf_arguments (newEntry rnd b d) = []"
  "buf_id (newEntry rnd b d) \<noteq> []"
  "fragId d \<noteq> [] \<Longrightarrow> buf_id (newEntry rnd b d) = fragId d"
  by (auto simp: newEntry_def fragId_def Let_def split: option.splits)

lemma processChunk_buffer:
  "toolCallsBuffer (snd (processChunk rnd mid mdl st c)) =
     foldl (bufferFragment rnd) (toolCallsBuffer st) (fragmentsOf c)"
  by (auto simp: processChunk_def fragmentsOf_def Let_def split: option.splits)

lemma processChunks_buffer:
  "toolCallsBuffer (snd (processChunks rnd mid mdl st cs)) =
     foldl (bufferFragment rnd) (toolCallsBuffer st) (concat (map fragmentsOf cs))"
  by (induction cs arbitrary: st) (simp_all add: split_beta Let_def processChunk_buffer)

text \<open>
  C3 (as amended).  Tool-call fragments are accumulated per call index into a buffer entry
  of id, name and arguments.  Once the chunks carry a fragment for call index \<open>k\<close>, the
  buffer holds an entry for \<open>k\<close> whose arguments are the fragments' argument strings
  concatenated in arrival order (never overwritten), whose name is the last non-empty name
  among the fragments, and whose id is the first fragment's id when that fragment has one.
  In particular, for the fragments \<open>{name:"get_weather"}\<close>, \<open>{arguments:'{"loc'}\<close>,
  \<open>{arguments:'":"NYC"}'}\<close> at call index 0 and a finish chunk, the stream has the
  explanatory text as block 0 and the \<open>tool_use\<close> block as block 1, with name
  \<open>get_weather\<close> and, as its input, the serialisation of the value that \<open>JSON.parse\<close>
  returns for \<open>{"loc":"NYC"}\<close>.
\<close>

theorem tool_call_accumulation:
  "(fragmentsAt k chunks = d # rest \<longrightarrow>
      (\<exists>e. map_of (toolCallsBuffer
                     (snd (processChunks rnd messageId claudeModel initialState chunks))) k = Some e
           \<and> buf_name e = lastNonEmpty (map fragName (d # rest))
           \<and> buf_arguments e = concat (map fragArgs (d # rest))
           \<and> (fragId d \<noteq> [] \<longrightarrow> buf_id e = fragId d)))
   \<and> (parse ''{\"loc\":\"NYC\"}'' = Some v \<longrightarrow>
        convertOpenAIStreamToClaude rnd parse stringify messageId claudeModel weatherChunks =
          MessageStart messageId claudeModel
          # explanatoryEvents 0
              [\<lparr>buf_id = ''call_'' @ rnd 0, buf_name = ''get_weather'',
                buf_arguments = ''{\"loc\":\"NYC\"}''\<rparr>]
          @ ContentBlockStart 1 (OutToolUse (''call_'' @ rnd 0) ''get_weather'' (JObj []))
          # map (\<lambda>piece. ContentBlockDelta 1 (InputJsonDelta piece)) (slices 3 0 (stringify v))
          @ [ContentBlockStop 1, MessageDelta ''tool_use'' 0 0, MessageStop])"
proof (intro conjI impI)
  assume fr: "fragmentsAt k chunks = d # rest"
  let ?buf = "toolCallsBuffer (snd (processChunks rnd messageId claudeModel initialState chunks))"
  have buf: "?buf = foldl (bufferFragment rnd) [] (concat (map fragmentsOf chunks))"
    by (simp add: processChunks_buffer initialState_def)
  have "map_of ([] :: (nat \<times> buffer_entry) list) k = None" by simp
  from foldl_buffer_absent [OF this fr [unfolded fragmentsAt_def], of rnd]
  obtain b where e: "map_of ?buf k = Some (accumulate (newEntry rnd b d) (d # rest))"
    unfolding buf by blast
  let ?e = "accumulate (newEntry rnd b d) (d # rest)"
  have n: "buf_name ?e = lastNonEmpty (map fragName (d # rest))"
    by (simp only: accumulate_name newEntry_fields lastNonEmpty_def)
  have a: "buf_arguments ?e = concat (map fragArgs (d # rest))"
    by (simp only: accumulate_arguments newEntry_fields append_Nil)
  have i: "fragId d \<noteq> [] \<longrightarrow> buf_id ?e = fragId d"
    by (simp add: accumulate_id newEntry_fields)
  from e n a i
  show "\<exists>e. map_of ?buf k = Some e
           \<and> buf_name e = lastNonEmpty (map fragName (d # rest))
           \<and> buf_arguments e = concat (map fragArgs (d # rest))
           \<and> (fragId d \<noteq> [] \<longrightarrow> buf_id e = fragId d)"
    by blast
next
  assume p: "parse ''{\"loc\":\"NYC\"}'' = Some v"
  show "convertOpenAIStreamToClaude rnd parse stringify messageId claudeModel weatherChunks =
          MessageStart messageId claudeModel
          # explanatoryEvents 0
              [\<lparr>buf_id = ''call_'' @ rnd 0, buf_name = ''get_weather'',
                buf_arguments = ''{\"loc\":\"NYC\"}''\<rparr>]
          @ ContentBlockStart 1 (OutToolUse (''call_'' @ rnd 0) ''get_weather'' (JObj []))
          # map (\<lambda>piece. ContentBlockDelta 1 (InputJsonDelta piece)) (slices 3 0 (stringify v))
          @ [ContentBlockStop 1, MessageDelta ''tool_use'' 0 0, MessageStop]"
    by (simp add: convertOpenAIStreamToClaude_def weatherChunks_def fragmentChunk_def
        finishChunk_def processChunk_def initialState_def deltaOf_def choiceOf_def Let_def
        bufferFragment_def newEntry_def applyFragment_def finalize_def toolCallEvents_def
        toolInput_def finalizeThrows_def explanatoryThrows_def explanatoryText_def
        explanatoryTexts_def p)
qed

theorem tool_call_accumulation_witness:
  "map (\<lambda>(k, e). (k, buf_name e, buf_arguments e))
     (toolCallsBuffer (snd (processChunks sampleRnd ''msg_1'' ''claude'' initialState weatherChunks)))
     = [(0, ''get_weather'', ''{\"loc\":\"NYC\"}'')]
   \<and> convertOpenAIStreamToClaude sampleRnd sampleParse sampleStringify ''msg_1'' ''claude''
        weatherChunks =
       [MessageStart ''msg_1'' ''claude'',
        ContentBlockStart 0 (OutText []),
        ContentBlockDelta 0 (TextDelta (''I'' @ [CHR 0x27] @ ''ll '')),
        ContentBlockDelta 0 (TextDelta ''help ''),
        ContentBlockDelta 0 (TextDelta ''you c''),
        ContentBlockDelta 0 (TextDelta ''heck ''),
        ContentBlockDelta 0 (TextDelta ''the w''),
        ContentBlockDelta 0 (TextDelta ''eathe''),
        ContentBlockDelta 0 (TextDelta ''r in ''),
        ContentBlockDelta 0 (TextDelta ''that ''),
        ContentBlockDelta 0 (TextDelta ''locat''),
        ContentBlockDelta 0 (TextDelta ''ion.''),
        ContentBlockStop 0,
        ContentBlockStart 1 (OutToolUse ''call_k3x9'' ''get_weather'' (JObj [])),
        ContentBlockDelta 1 (InputJsonDelta ''{\"l''),
        ContentBlockDelta 1 (InputJsonDelta ''oc\"''),
        ContentBlockDelta 1 (InputJsonDelta '':\"N''),
        ContentBlockDelta 1 (InputJsonDelta ''YC\"''),
        ContentBlockDelta 1 (InputJsonDelta ''}''),
        ContentBlockStop 1,
        MessageDelta ''tool_use'' 0 0,
        MessageStop]"
proof -
  have fr: "fragmentsAt 0 weatherChunks =
      \<lparr>tcd_index = Some 0, tcd_id = None,
        tcd_function = Some \<lparr>fd_name = Some ''get_weather'', fd_arguments = None\<rparr>\<rparr>
      # [\<lparr>tcd_index = Some 0, tcd_id = None,
          tcd_function = Some \<lparr>fd_name = None, fd_arguments = Some ''{\"loc''\<rparr>\<rparr>,
         \<lparr>tcd_index = Some 0, tcd_id = None,
          tcd_function = Some \<lparr>fd_name = None, fd_arguments = Some ''\":\"NYC\"}''\<rparr>\<rparr>]"
    by (simp add: fragmentsAt_def weatherChunks_def fragmentChunk_def finishChunk_def
        fragmentsOf_def deltaOf_def choiceOf_def fragKey_def)
  have p: "sampleParse ''{\"loc\":\"NYC\"}'' = Some (JObj [(''loc'', JStr ''NYC'')])"
    by (simp add: sampleParse_def)
  have buf: "toolCallsBuffer (snd (processChunks sampleRnd ''msg_1'' ''claude'' initialState weatherChunks))
     = [(0, \<lparr>buf_id = ''call_k3x9'', buf_name = ''get_weather'', buf_arguments = ''{\"loc\":\"NYC\"}''\<rparr>)]"
    by (simp add: weatherChunks_def fragmentChunk_def
        finishChunk_def processChunk_def initialState_def deltaOf_def choiceOf_def Let_def
        bufferFragment_def newEntry_def applyFragment_def sampleRnd_def)
  from tool_call_accumulation [of 0 weatherChunks _ _ sampleRnd "''msg_1''" "''claude''" sampleParse
      "JObj [(''loc'', JStr ''NYC'')]" sampleStringify] fr p
  have ev: "convertOpenAIStreamToClaude sampleRnd sampleParse sampleStringify ''msg_1'' ''claude'' weatherChunks =
          MessageStart ''msg_1'' ''claude''
          # explanatoryEvents 0
              [\<lparr>buf_id = ''call_'' @ sampleRnd 0, buf_name = ''get_weather'',
                buf_arguments = ''{\"loc\":\"NYC\"}''\<rparr>]
          @ ContentBlockStart 1 (OutToolUse (''call_'' @ sampleRnd 0) ''get_weather'' (JObj []))
          # map (\<lambda>piece. ContentBlockDelta 1 (InputJsonDelta piece))
              (slices 3 0 (sampleStringify (JObj [(''loc'', JStr ''NYC'')])))
          @ [ContentBlockStop 1, MessageDelta ''tool_use'' 0 0, MessageStop]"
    by blast
  show ?thesis
    unfolding ev buf
    by (simp add: explanatoryEvents_def explanatoryText_def explanatoryTexts_def sampleRnd_def
        sampleStringify_def slices.simps)
qed

text \<open>
  C3 as stated takes the name from the first non-empty occurrence.  The code assigns the
  name at every fragment that carries one: for two fragments named \<open>a\<close> and \<open>b\<close> at call
  index 0 the buffered name is \<open>b\<close>, while the first non-empty occurrence is \<open>a\<close>.
\<close>

theorem tool_call_name_not_first_occurrence:
  "map_of (toolCallsBuffer
            (snd (processChunks sampleRnd ''msg_1'' ''claude'' initialState renamedChunks))) 0
     = Some \<lparr>buf_id = ''call_k3x9'', buf_name = ''b'', buf_arguments = []\<rparr>
   \<and> firstNonEmpty (map fragName (fragmentsAt 0 renamedChunks)) = ''a''"
  by (simp add: renamedChunks_def fragmentChunk_def processChunk_def initialState_def
      deltaOf_def choiceOf_def Let_def bufferFragment_def newEntry_def applyFragment_def
      firstNonEmpty_def fragmentsAt_def fragmentsOf_def fragKey_def fragName_def sampleRnd_def)

subsection \<open>The batch engine\<close>

lemma countsTotal_mark:
  "countsTotal (markCanceled b r) = countsTotal b"
  "countsTotal (markSucceeded b r response) = countsTotal b"
  "countsTotal (markErrored b r message) = countsTotal b"
  by (simp_all add: countsTotal_def markCanceled_def markSucceeded_def markErrored_def
      pushResult_def Let_def)

lemma countsTotal_runWorker:
  "countsTotal (job (runWorker modelManager now b rs)) = countsTotal b"
proof (induction rs arbitrary: b)
  case Nil
  show ?case by (simp add: countsTotal_def)
next
  case (Cons r rs)
  show ?case
    by (simp add: Cons.IH countsTotal_mark split: option.splits)
qed

lemma countsTotal_resume:
  "countsTotal (job (resume modelManager now outcome sys)) = countsTotal (job sys)"
  by (simp add: resume_def countsTotal_runWorker countsTotal_mark
      split: option.splits list.splits settled.splits)

lemma countsTotal_batchStep:
  "countsTotal (job (batchStep modelManager sys a)) = countsTotal (job sys)"
proof (cases a)
  case (Cancel now)
  then show ?thesis by (simp add: batchStep_def cancelBatch_def countsTotal_def)
next
  case (Settle now outcome)
  then show ?thesis by (simp add: batchStep_def countsTotal_resume)
qed

lemma countsTotal_foldl:
  "countsTotal (job (foldl (batchStep modelManager) sys acts)) = countsTotal (job sys)"
  by (induction acts arbitrary: sys) (simp_all add: countsTotal_batchStep)

text \<open>
  C4.  For every batch job, in every state another request handler can observe after the
  job's creation (the state the create handler leaves, and the state after any sequence
  of cancel requests and settled backend calls), \<open>processing + succeeded + errored +
  canceled\<close> equals the number of requests submitted with the job.
\<close>

theorem batch_counts_invariant:
  "countsTotal (job (foldl (batchStep modelManager) (createBatch modelManager now batchId requests) acts))
     = int (length requests)"
  by (simp add: countsTotal_foldl createBatch_def Let_def countsTotal_runWorker)
     (simp add: countsTotal_def)

theorem batch_counts_invariant_witness:
  "countsTotal (job (foldl (batchStep sampleModels)
      (createBatch sampleModels 0 ''batch_1'' (sampleRequests @ sampleRequests @ [hd sampleRequests]))
      [Settle 1 (Resolved JNull), Settle 2 (Rejected ''timeout''), Cancel 3,
       Settle 4 (Resolved JNull)])) = 5"
  using batch_counts_invariant [of sampleModels 0 "''batch_1''"
      "sampleRequests @ sampleRequests @ [hd sampleRequests]"
      "[Settle 1 (Resolved JNull), Settle 2 (Rejected ''timeout''), Cancel 3,
       Settle 4 (Resolved JNull)]"]
  by (simp add: sampleRequests_def)

text \<open>
  C5 (the code departs from it).  The results handler rejects a request only while
  \<open>batch.results\<close> is absent, and the worker sets \<open>batch.results\<close> to an empty array before
  the create handler returns.  For a job of two requests whose first backend call is
  pending, the status is \<open>in_progress\<close> and the results request is answered with the empty
  list; once the first call has settled, the status is still \<open>in_progress\<close> and the answer
  is the partial list of one record.
\<close>

theorem results_served_before_ended:
  "job_status (job (createBatch sampleModels 0 ''batch_1'' sampleRequests)) = InProgress
   \<and> getResults (createBatch sampleModels 0 ''batch_1'' sampleRequests) = Inr []
   \<and> job_status (job (batchStep sampleModels
          (createBatch sampleModels 0 ''batch_1'' sampleRequests)
          (Settle 5 (Resolved JNull)))) = InProgress
   \<and> getResults (batchStep sampleModels
          (createBatch sampleModels 0 ''batch_1'' sampleRequests)
          (Settle 5 (Resolved JNull))) =
       Inr [\<lparr>res_custom_id = ''r1'', res_result = ResultSucceeded JNull\<rparr>]"
  by (simp add: createBatch_def sampleRequests_def sampleBody_def sampleModels_def
      getResults_def Let_def batchStep_def resume_def markSucceeded_def pushResult_def)

subsection \<open>The cache and the router\<close>

lemma map_of_mapSet: "map_of (mapSet k v m) k' = (if k' = k then Some v else map_of m k')"
  by (induction m) auto

lemma map_of_mapDelete: "map_of (mapDelete k m) k = None"
  by (induction m) (auto simp: mapDelete_def)

text \<open>
  C7.  For every key \<open>k\<close>, value \<open>v\<close> and TTL \<open>t\<close>: after \<open>set(k, v, t)\<close> at time \<open>now\<close>, a
  \<open>get(k)\<close> at an elapsed time of at most \<open>t\<close> returns \<open>v\<close> and leaves the store as it is; a
  \<open>get(k)\<close> at an elapsed time beyond \<open>t\<close> returns absent and deletes the entry, so that the
  key is no longer in the store.  With \<open>t = 1000\<close>: a read at 500 returns \<open>v\<close>, a read at
  1500 returns absent.
\<close>

theorem cache_get_after_set:
  "(elapsed \<le> t \<longrightarrow>
      store_get k (now + elapsed) (store_set k v (Some t) now st) =
        (Some v, store_set k v (Some t) now st))
   \<and> (t < elapsed \<longrightarrow>
      store_get k (now + elapsed) (store_set k v (Some t) now st) =
        (None, store_delete k (store_set k v (Some t) now st))
      \<and> map_of (cache (snd (store_get k (now + elapsed) (store_set k v (Some t) now st)))) k
          = None)"
  by (simp add: store_get_def store_set_def map_of_mapSet store_delete_def map_of_mapDelete)

theorem cache_get_after_set_witness:
  "store_get ''k'' 500 (store_set ''k'' (7::nat) (Some 1000) 0 \<lparr>cache = [], cleanupTimer = False\<rparr>)
     = (Some 7, \<lparr>cache = [(''k'', \<lparr>item_value = 7, expireTime = 1000\<rparr>)], cleanupTimer = True\<rparr>)
   \<and> store_get ''k'' 1500 (store_set ''k'' (7::nat) (Some 1000) 0 \<lparr>cache = [], cleanupTimer = False\<rparr>)
     = (None, \<lparr>cache = [], cleanupTimer = True\<rparr>)"
  using cache_get_after_set [of 500 1000 "''k''" 0 "7::nat" "\<lparr>cache = [], cleanupTimer = False\<rparr>"]
        cache_get_after_set [of 1500 1000 "''k''" 0 "7::nat" "\<lparr>cache = [], cleanupTimer = False\<rparr>"]
  by (simp add: store_set_def store_delete_def mapDelete_def)

lemma webSearchRequest_indicators: "hasExactlyOneWebSearchTool (webSearchRequest q)"
   "hasWebSearchSystemIndicator (webSearchRequest q)"
  by (simp_all add: hasExactlyOneWebSearchTool_def webSearchRequest_def webSearchTool_def
    hasWebSearchSystemIndicator_def systemTruthy_def systemText_def webSearchMarker_def)

text \<open>
  C6 (as amended).  For every request whose tool list is exactly one web-search tool
  (type \<open>web_search_20250305\<close>, name \<open>web_search\<close>) and whose system prompt text contains the
  web-search marker, and for every policy with a configured \<open>webSearch\<close> route,
  \<open>routeModel\<close> returns \<open>policy.webSearch\<close> whenever the token estimation it performs first
  returns a count, whatever that count, the threshold and the other routes are.
\<close>

theorem routeModel_webSearch_first:
  assumes "hasExactlyOneWebSearchTool request"
    and "hasWebSearchSystemIndicator request"
    and "rc_webSearch routerConfig = Some w" and "w \<noteq> []"
    and "calculateTokenCount enc stringify (req_messages request) (req_system request)
           (case req_tools request of Some ts \<Rightarrow> ts | None \<Rightarrow> []) = Some tokenCount"
  shows "routeModel enc stringify request routerConfig = w"
  using assms by (simp add: routeModel_def Let_def)

theorem routeModel_webSearch_first_witness:
  "calculateTokenCount sampleEnc sampleStringify (req_messages (webSearchRequest ''weather in NYC today''))
      (req_system (webSearchRequest ''weather in NYC today'')) [webSearchTool] = Some 87
   \<and> routeModel sampleEnc sampleStringify (webSearchRequest ''weather in NYC today'') samplePolicy
       = ''search-model''"
proof -
  have c: "calculateTokenCount sampleEnc sampleStringify
             (req_messages (webSearchRequest ''weather in NYC today''))
             (req_system (webSearchRequest ''weather in NYC today''))
             (case req_tools (webSearchRequest ''weather in NYC today'') of
                Some ts \<Rightarrow> ts | None \<Rightarrow> []) = Some 87"
    by (simp add: calculateTokenCount_def webSearchRequest_def messageTexts_def systemTexts_def
        toolTexts_def webSearchTool_def sampleEnc_def)
  have w: "rc_webSearch samplePolicy = Some ''search-model''" "''search-model'' \<noteq> []"
    by (simp_all add: samplePolicy_def)
  from routeModel_webSearch_first [OF webSearchRequest_indicators(1) webSearchRequest_indicators(2) w c] c
  show ?thesis by (simp add: webSearchRequest_def)
qed

text \<open>
  C6 as stated, for every such request, does not hold: the token count is computed first,
  inside the \<open>try\<close>, and when the tokenizer throws the \<open>catch\<close> returns \<open>policy.default\<close>.
  Here the user message holds a special token that the tokenizer rejects.
\<close>

theorem routeModel_estimator_error_default:
  "hasExactlyOneWebSearchTool (webSearchRequest ''what is <|endoftext|>'')
   \<and> hasWebSearchSystemIndicator (webSearchRequest ''what is <|endoftext|>'')
   \<and> rc_webSearch samplePolicy = Some ''search-model''
   \<and> routeModel sampleEnc sampleStringify (webSearchRequest ''what is <|endoftext|>'') samplePolicy
       = ''default-model''"
proof -
  have "routeModel sampleEnc sampleStringify (webSearchRequest ''what is <|endoftext|>'')
          samplePolicy = ''default-model''"
    by (simp add: samplePolicy_def routeModel_def calculateTokenCount_def webSearchRequest_def
        messageTexts_def systemTexts_def toolTexts_def webSearchTool_def sampleEnc_def)
  then show ?thesis by (simp add: webSearchRequest_indicators samplePolicy_def)
qed

subsection \<open>The bracket scan\<close>

lemma lastIndexOf_None: "lastIndexOf c xs = None \<longleftrightarrow> c \<notin> set xs"
  by (induction xs) (auto split: option.splits)

lemma lastIndexOf_iff:
  "lastIndexOf c xs = Some l \<longleftrightarrow> (l < length xs \<and> xs ! l = c \<and> c \<notin> set (drop (Suc l) xs))"
proof (induction xs arbitrary: l)
  case Nil
  then show ?case by simp
next
  case (Cons x xs)
  show ?case
  proof (cases "lastIndexOf c xs")
    case None
    then have no: "c \<notin> set xs" by (simp add: lastIndexOf_None)
    show ?thesis
    proof (cases l)
      case 0
      with None no show ?thesis by simp
    next
      case (Suc l')
      with None no show ?thesis by (auto dest: nth_mem)
    qed
  next
    case (Some i)
    with Cons.IH [of i] have i: "i < length xs" "xs ! i = c" "c \<notin> set (drop (Suc i) xs)"
      by simp_all
    show ?thesis
    proof (cases l)
      case 0
      with Some i show ?thesis by (auto dest: nth_mem)
    next
      case (Suc l')
      with Some Cons.IH [of l'] show ?thesis by auto
    qed
  qed
qed

lemma depth_step:
  assumes "j \<le> l" and "l < length text"
  shows "depth text j l = weight (text ! j) + depth text (Suc j) l"
proof -
  from assms have "j < length text" by simp
  then have "drop j text = text ! j # drop (Suc j) text"
    by (simp add: Cons_nth_drop_Suc)
  moreover from assms have "Suc l - j = Suc (l - j)" by simp
  ultimately show ?thesis by (simp add: depth_def substring_def)
qed

lemma depth_empty: "l < j \<Longrightarrow> depth text j l = 0"
  by (simp add: depth_def substring_def)

lemma scanBack_finds:
  assumes "l < length text" and "f \<le> i" and "i \<le> l"
    and "bracketCount = depth text (Suc i) l"
    and "depth text f l = 0"
    and "\<forall>j \<in> set [Suc f..<Suc l]. 0 < depth text j l"
    and "text ! l = CHR '']''"
  shows "scanBack text i bracketCount = Some f"
proof -
  have H: "\<And>j. f < j \<Longrightarrow> j \<le> l \<Longrightarrow> 0 < depth text j l"
  proof -
    fix j assume "f < j" "j \<le> l"
    then have "j \<in> set [Suc f..<Suc l]" by auto
    with assms(6) show "0 < depth text j l" by blast
  qed
  have L: "depth text l l = 1"
    using depth_step [of l l "text"] assms(1,7) by (simp add: depth_empty weight_def)
  from assms(2-4) show ?thesis
  proof (induction i arbitrary: bracketCount)
    case 0
    then have f0: "f = 0" by simp
    from assms(1) have st: "depth text 0 l = weight (text ! 0) + depth text (Suc 0) l"
      by (simp add: depth_step)
    have l0: "l \<noteq> 0"
    proof
      assume "l = 0"
      with L assms(5) f0 show False by simp
    qed
    then have pos: "0 < depth text (Suc 0) l"
      using H [of "Suc 0"] f0 by simp
    from st assms(5) f0 pos 0(3) show ?case
      by (auto simp: weight_def split: if_splits)
  next
    case (Suc i)
    have st: "depth text (Suc i) l = weight (text ! Suc i) + depth text (Suc (Suc i)) l"
      using Suc.prems(2) assms(1) by (simp add: depth_step)
    show ?case
    proof (cases "f = Suc i")
      case True
      have l0: "Suc i \<noteq> l"
      proof
        assume "Suc i = l"
        with L assms(5) True show False by simp
      qed
      then have pos: "0 < depth text (Suc (Suc i)) l"
        using H [of "Suc (Suc i)"] True Suc.prems(2) by simp
      from st assms(5) True pos Suc.prems(3) show ?thesis
        by (auto simp: weight_def split: if_splits)
    next
      case False
      with Suc.prems(1) have fi: "f \<le> i" by simp
      then have pos: "0 < depth text (Suc i) l"
        using H [of "Suc i"] Suc.prems(2) by simp
      have IH: "\<And>c. c = depth text (Suc i) l \<Longrightarrow> scanBack text i c = Some f"
        using Suc.IH [OF fi] Suc.prems(2) by simp
      from st pos Suc.prems(3) show ?thesis
        by (auto simp: weight_def IH split: if_splits)
    qed
  qed
qed

text \<open>
  C8.  For every input whose last \<open>]\<close> is at index \<open>l\<close> and has its matching \<open>[\<close> at index
  \<open>f\<close> (the bracket depth, tracked backward from \<open>l\<close>, first returns to zero at \<open>f\<close>), and
  whose stretch from \<open>f\<close> through \<open>l\<close> parses as JSON, \<open>parseSearchResult\<close> returns the
  trimmed text before \<open>f\<close> as \<open>queryPart\<close> and the parsed stretch as \<open>linksArray\<close>.  In
  particular, \<open>weather in NYC [{"title":"a","url":"b"}]\<close> yields the query
  \<open>weather in NYC\<close> and the value parsed from \<open>[{"title":"a","url":"b"}]\<close>.
\<close>

theorem parseSearchResult_bracket_scan:
  "(isLastClose text l \<and> matchesOpen text l f
      \<and> parse (substring text f (Suc l)) = Some linksArray \<longrightarrow>
    parseSearchResult parse text = Returns (trim (take f text)) linksArray)
   \<and> (parse ''[{\"title\":\"a\",\"url\":\"b\"}]'' = Some links \<longrightarrow>
        parseSearchResult parse searchText = Returns ''weather in NYC'' links)"
proof (intro conjI impI)
  assume a: "isLastClose text l \<and> matchesOpen text l f
      \<and> parse (substring text f (Suc l)) = Some linksArray"
  then have li: "lastIndexOf CHR '']'' text = Some l"
    by (simp add: isLastClose_def lastIndexOf_iff)
  from a have sc: "scanBack text l 0 = Some f"
    by (intro scanBack_finds [of l "text" f l])
       (simp_all add: isLastClose_def matchesOpen_def depth_empty)
  from a show "parseSearchResult parse text = Returns (trim (take f text)) linksArray"
    by (simp add: parseSearchResult_def li sc substring_def)
next
  assume p: "parse ''[{\"title\":\"a\",\"url\":\"b\"}]'' = Some links"
  show "parseSearchResult parse searchText = Returns ''weather in NYC'' links"
    by (simp add: parseSearchResult_def searchText_def substring_def trim_def is_space_def p)
qed

theorem parseSearchResult_bracket_scan_witness:
  "isLastClose searchText 39 \<and> matchesOpen searchText 39 15
   \<and> parseSearchResult sampleParse searchText =
       Returns ''weather in NYC''
         (JArr [JObj [(''title'', JStr ''a''), (''url'', JStr ''b'')]])"
proof -
  have h1: "isLastClose searchText 39" by (simp add: isLastClose_def searchText_def)
  have h2: "matchesOpen searchText 39 15"
    unfolding matchesOpen_def depth_def substring_def searchText_def weight_def
    by (simp add: upt_rec)
  have h3: "sampleParse (substring searchText 15 (Suc 39)) =
      Some (JArr [JObj [(''title'', JStr ''a''), (''url'', JStr ''b'')]])"
    by (simp add: sampleParse_def substring_def searchText_def)
  have t: "trim (take 15 searchText) = ''weather in NYC''"
    by (simp add: trim_def searchText_def is_space_def)
  from parseSearchResult_bracket_scan [of searchText 39 15 sampleParse _ "JArr []"] h1 h2 h3 t
  show ?thesis by simp
qed

end
